theory Spec2Isabelle
  imports Main "HOL-Library.AList"
begin

section \<open>JavaScript values\<close>

text \<open>
  The drivers read provider responses as parsed JSON and pass plain object literals
  around. A value is one of the JSON shapes, or \<open>undefined\<close> (what reading a missing
  property gives), or \<open>NaN\<close>. \<open>JNum n\<close> stands for the number \<open>n\<close>; only
  integers are represented, and of those the ones a double holds exactly and prints in
  plain decimal. The list of a \<open>JObj\<close> holds the own properties of the object in the
  order \<open>Object.keys\<close> enumerates them, each key once.
\<close>

datatype jsval =
    JUndefined
  | JNull
  | JBool bool
  | JNum int
  | JNaN
  | JStr string
  | JArr "jsval list"
  | JObj "(string \<times> jsval) list"

text \<open>
  Truthiness, as \<open>!v\<close>, \<open>v && w\<close>, \<open>v || w\<close> and \<open>v ? a : b\<close> test it.
\<close>

fun js_truthy :: "jsval \<Rightarrow> bool" where
  "js_truthy JUndefined = False"
| "js_truthy JNull = False"
| "js_truthy (JBool b) = b"
| "js_truthy (JNum n) = (n \<noteq> 0)"
| "js_truthy JNaN = False"
| "js_truthy (JStr s) = (s \<noteq> [])"
| "js_truthy (JArr xs) = True"
| "js_truthy (JObj ps) = True"

text \<open>
  The callback parameters are the parsed query string: each of \<open>code\<close>, \<open>state\<close>,
  \<open>error\<close> and \<open>error_description\<close> is a string or absent. So is the original state
  the caller supplies (\<open>@param {String} [originalState]\<close>). Absent is \<open>None\<close>. An
  absent or empty string is falsy; \<open>!==\<close> on two such values is inequality.
\<close>

type_synonym query = "string \<Rightarrow> string option"

fun str_truthy :: "string option \<Rightarrow> bool" where
  "str_truthy None = False"
| "str_truthy (Some s) = (s \<noteq> [])"

text \<open>
  Modelled from the spec: the exceptions of the module \<open>../Exceptions\<close>, which is not
  among the source files. \<open>tokenExchangeException\<close> is the token-exchange error, which
  carries a message, and \<open>invalidState\<close> is the invalid-state error; the first keeps the
  three arguments the drivers pass. The other constructors are the ways a driver call can
  end besides: a \<open>TypeError\<close> of the runtime, and a rejection by one of the two outbound
  calls.
\<close>

datatype exn =
    TokenExchangeException string jsval string
      \<comment> \<open>\<open>CE.OAuthException.tokenExchangeException(message, status, original)\<close>\<close>
  | InvalidState
      \<comment> \<open>\<open>CE.OAuthException.invalidState()\<close>\<close>
  | TypeError
      \<comment> \<open>reading a property of \<open>undefined\<close> or \<open>null\<close>, calling what is not a function\<close>
  | GetAccessTokenRejected string
      \<comment> \<open>whatever the inherited \<open>getAccessToken\<close> rejects with\<close>
  | GotRejected string
      \<comment> \<open>whatever the HTTP client \<open>got\<close> rejects with\<close>

text \<open>
  Reading a property \<open>v.k\<close>. It throws on \<open>undefined\<close> and \<open>null\<close>. The drivers read
  only names that no primitive or array has of its own (\<open>id\<close>, \<open>data\<close>,
  \<open>accessToken\<close>, ...), so on those the read gives \<open>undefined\<close>.
\<close>

definition field :: "(string \<times> jsval) list \<Rightarrow> string \<Rightarrow> jsval" where
  "field ps k = (case map_of ps k of Some v \<Rightarrow> v | None \<Rightarrow> JUndefined)"

fun js_get :: "jsval \<Rightarrow> string \<Rightarrow> exn + jsval" where
  "js_get JUndefined k = Inl TypeError"
| "js_get JNull k = Inl TypeError"
| "js_get (JObj ps) k = Inr (field ps k)"
| "js_get v k = Inr JUndefined"

text \<open>
  \<open>v[Object.keys(v)[0]]\<close>: the value of the first enumerated own property, \<open>undefined\<close>
  when there is none (\<open>Object.keys\<close> of a number or a boolean is empty, and then
  \<open>v[undefined]\<close> is \<open>undefined\<close>); \<open>Object.keys\<close> throws on \<open>undefined\<close> and
  \<open>null\<close>. The first own property of an array is its first element, of a string its
  first character.
\<close>

fun first_own :: "jsval \<Rightarrow> exn + jsval" where
  "first_own JUndefined = Inl TypeError"
| "first_own JNull = Inl TypeError"
| "first_own (JObj []) = Inr JUndefined"
| "first_own (JObj ((k, v) # ps)) = Inr (field ((k, v) # ps) k)"
| "first_own (JArr []) = Inr JUndefined"
| "first_own (JArr (x # xs)) = Inr x"
| "first_own (JStr []) = Inr JUndefined"
| "first_own (JStr (c # cs)) = Inr (JStr [c])"
| "first_own v = Inr JUndefined"

text \<open>\<open>v == null\<close>: the two values a property cannot be read of.\<close>

definition nullish :: "jsval \<Rightarrow> bool" where
  "nullish v = (v = JUndefined \<or> v = JNull)"

text \<open>
  \<open>_.get(v, 'k1.k2')\<close> of lodash. When the object has a property whose name is the
  whole path \<open>k1.k2\<close>, the path is one key and that property is the result. Otherwise
  the path is walked key by key, and the walk gives \<open>undefined\<close> instead of throwing
  when it meets \<open>undefined\<close> or \<open>null\<close>.
\<close>

definition safe_get :: "jsval \<Rightarrow> string \<Rightarrow> jsval" where
  "safe_get v k = (case js_get v k of Inl e \<Rightarrow> JUndefined | Inr w \<Rightarrow> w)"

definition lodash_get2 :: "jsval \<Rightarrow> string \<Rightarrow> string \<Rightarrow> jsval" where
  "lodash_get2 v k1 k2 =
     (case v of
        JObj ps \<Rightarrow>
          (case map_of ps (k1 @ ''.'' @ k2) of
             Some w \<Rightarrow> w
           | None \<Rightarrow> safe_get (safe_get v k1) k2)
      | _ \<Rightarrow> safe_get (safe_get v k1) k2)"

text \<open>\<open>Array.prototype.join\<close> on an array of strings.\<close>

fun join :: "string \<Rightarrow> string list \<Rightarrow> string" where
  "join sep [] = []"
| "join sep [x] = x"
| "join sep (x # y # ys) = x @ sep @ join sep (y # ys)"

text \<open>Decimal digits of a natural number.\<close>

function dec_nat :: "nat \<Rightarrow> string" where
  "dec_nat n =
     (if n < 10 then [char_of (48 + n)]
      else dec_nat (n div 10) @ [char_of (48 + n mod 10)])"
  by pat_completeness auto
termination
  by (relation "measure id") auto

declare dec_nat.simps [simp del]

text \<open>
  \<open>String(v)\<close>, which a template literal \<open>`${v}`\<close> applies. An array prints its elements
  joined by commas, \<open>null\<close> and \<open>undefined\<close> elements as the empty string.
\<close>

fun js_to_string :: "jsval \<Rightarrow> string" where
  "js_to_string JUndefined = ''undefined''"
| "js_to_string JNull = ''null''"
| "js_to_string (JBool b) = (if b then ''true'' else ''false'')"
| "js_to_string (JNum n) = (if n < 0 then ''-'' @ dec_nat (nat (- n)) else dec_nat (nat n))"
| "js_to_string JNaN = ''NaN''"
| "js_to_string (JStr s) = s"
| "js_to_string (JArr xs) =
     join '','' (map (\<lambda>x. case x of JUndefined \<Rightarrow> [] | JNull \<Rightarrow> [] | _ \<Rightarrow> js_to_string x) xs)"
| "js_to_string (JObj ps) = ''[object Object]''"

text \<open>
  \<open>Number(v)\<close>, also the conversion \<open>v * 1000\<close> applies to \<open>v\<close>. How the runtime reads
  a string as a number is the parameter \<open>strnum\<close>; an array converts through its string.
\<close>

fun js_Number :: "(string \<Rightarrow> jsval) \<Rightarrow> jsval \<Rightarrow> jsval" where
  "js_Number strnum JUndefined = JNaN"
| "js_Number strnum JNull = JNum 0"
| "js_Number strnum (JBool b) = JNum (if b then 1 else 0)"
| "js_Number strnum (JNum n) = JNum n"
| "js_Number strnum JNaN = JNaN"
| "js_Number strnum (JStr s) = strnum s"
| "js_Number strnum (JArr xs) = strnum (js_to_string (JArr xs))"
| "js_Number strnum (JObj ps) = JNaN"

text \<open>
  A \<open>Date\<close> object holds a time value in milliseconds, or is an Invalid Date.
  \<open>new Date(t)\<close> is an Invalid Date when \<open>t\<close> is more than 8.64e15 milliseconds away
  from the epoch, in either direction.
\<close>

datatype jsdate = Date int | InvalidDate

definition new_Date :: "int \<Rightarrow> jsdate" where
  "new_Date t = (if \<bar>t\<bar> \<le> 8640000000000000 then Date t else InvalidDate)"

text \<open>
  Relational operators on two dates compare their time values as numbers; the time value
  of an Invalid Date is \<open>NaN\<close>, and every comparison with \<open>NaN\<close> is false.
\<close>

fun date_le :: "jsdate \<Rightarrow> jsdate \<Rightarrow> bool" where
  "date_le (Date a) (Date b) = (a \<le> b)"
| "date_le _ _ = False"

fun date_gt :: "jsdate \<Rightarrow> jsdate \<Rightarrow> bool" where
  "date_gt (Date a) (Date b) = (a > b)"
| "date_gt _ _ = False"

section \<open>Effects: the outbound calls of one driver call\<close>

text \<open>
  A driver reaches the network through two functions that are not part of the drivers:
  \<open>getAccessToken(code, redirectUri, options)\<close>, inherited from the OAuth2 scheme, which
  performs the code-for-token exchange, and the HTTP client \<open>got(url, {headers, json: true})\<close>,
  of which the drivers keep \<open>response.body\<close>. Both are parameters here: each resolves with
  a value or rejects. \<open>strnum\<close> is the runtime's reading of a string as a number and
  \<open>clock\<close> is \<open>Date.now()\<close>.
\<close>

record env =
  getAccessToken :: "string \<Rightarrow> string \<Rightarrow> jsval \<Rightarrow> string + jsval"
  got :: "string \<Rightarrow> (string \<times> jsval) list \<Rightarrow> string + jsval"
  strnum :: "string \<Rightarrow> jsval"
  clock :: int

datatype event =
    GetAccessTokenCall string string jsval
  | GotCall string "(string \<times> jsval) list"

text \<open>
  An \<open>async\<close> method yields the outbound calls it made, in order, and either the
  exception it rejected with or its result.
\<close>

type_synonym 'a io = "event list \<times> (exn + 'a)"

definition io_throw :: "exn \<Rightarrow> 'a io" where
  "io_throw e = ([], Inl e)"

definition io_lift :: "exn + 'a \<Rightarrow> 'a io" where
  "io_lift r = ([], r)"

definition io_bind :: "'a io \<Rightarrow> ('a \<Rightarrow> 'b io) \<Rightarrow> 'b io" where
  "io_bind m f =
     (case m of
        (t, Inl e) \<Rightarrow> (t, Inl e)
      | (t, Inr v) \<Rightarrow> (case f v of (t', r) \<Rightarrow> (t @ t', r)))"

definition bind_exn :: "exn + 'a \<Rightarrow> ('a \<Rightarrow> exn + 'b) \<Rightarrow> exn + 'b" where
  "bind_exn m f = (case m of Inl e \<Rightarrow> Inl e | Inr v \<Rightarrow> f v)"

definition call_getAccessToken :: "env \<Rightarrow> string \<Rightarrow> string \<Rightarrow> jsval \<Rightarrow> jsval io" where
  "call_getAccessToken E code uri options =
     ([GetAccessTokenCall code uri options],
      case getAccessToken E code uri options of
        Inl m \<Rightarrow> Inl (GetAccessTokenRejected m)
      | Inr v \<Rightarrow> Inr v)"

definition call_got :: "env \<Rightarrow> string \<Rightarrow> (string \<times> jsval) list \<Rightarrow> jsval io" where
  "call_got E url headers =
     ([GotCall url headers],
      case got E url headers of
        Inl m \<Rightarrow> Inl (GotRejected m)
      | Inr body \<Rightarrow> Inr body)"

section \<open>The driver object and the user it builds\<close>

text \<open>
  The configuration \<open>Config.get('services.ally.<name>')\<close> and the fields a driver
  instance keeps. \<open>fields'\<close> is LinkedIn's \<open>this.fields\<close>; \<open>clientId\<close> and \<open>clientSecret\<close> are
  kept by TikTok and Threads (\<open>this._clientId\<close>, \<open>this._clientSecret\<close>).
\<close>

record config =
  cfg_clientId :: string
  cfg_clientSecret :: string
  cfg_redirectUri :: string
  cfg_scope :: "string list"
  cfg_fields :: "string list"
  cfg_options :: "(string \<times> string) list"

record driver =
  clientId :: string
  clientSecret :: string
  redirectUri :: string
  redirectUriOptions :: "(string \<times> string) list"
  scope :: "string list"
  fields' :: "string list"

text \<open>
  \<open>_.merge({ response_type: 'code' }, config.options)\<close>: every option of the
  configuration is written into the object, over a value already there.
\<close>

definition merge_options :: "(string \<times> string) list \<Rightarrow> (string \<times> string) list \<Rightarrow> (string \<times> string) list" where
  "merge_options base opts = fold (\<lambda>(k, v). AList.update k v) opts base"

text \<open>
  The constructors. \<open>utils.validateDriverConfig\<close> is not among the source files; the
  configuration here is one that it let pass. \<open>_.size(config.scope)\<close> is zero for an
  absent and for an empty list of scopes.
\<close>

definition new_LinkedIn :: "config \<Rightarrow> driver" where
  "new_LinkedIn c =
     \<lparr> clientId = cfg_clientId c,
       clientSecret = cfg_clientSecret c,
       redirectUri = cfg_redirectUri c,
       redirectUriOptions = merge_options [(''response_type'', ''code'')] (cfg_options c),
       scope = (if cfg_scope c \<noteq> [] then cfg_scope c else [''r_liteprofile'', ''r_emailaddress'']),
       fields' = (if cfg_fields c \<noteq> [] then cfg_fields c
                 else [''id'', ''firstName'', ''lastName'', ''localizedFirstName'',
                       ''localizedLastName'', ''profilePicture'']) \<rparr>"

definition new_Threads :: "config \<Rightarrow> driver" where
  "new_Threads c =
     \<lparr> clientId = cfg_clientId c,
       clientSecret = cfg_clientSecret c,
       redirectUri = cfg_redirectUri c,
       redirectUriOptions = merge_options [(''response_type'', ''code'')] (cfg_options c),
       scope = (if cfg_scope c \<noteq> [] then cfg_scope c else [''threads_basic'']),
       fields' = [] \<rparr>"

definition new_TikTok :: "config \<Rightarrow> driver" where
  "new_TikTok c =
     \<lparr> clientId = cfg_clientId c,
       clientSecret = cfg_clientSecret c,
       redirectUri = cfg_redirectUri c,
       redirectUriOptions = merge_options [(''response_type'', ''code'')] (cfg_options c),
       scope = (if cfg_scope c \<noteq> [] then cfg_scope c
                else [''user.info.basic'', ''user.info.username'']),
       fields' = [] \<rparr>"

text \<open>
  Modelled from the spec: the class \<open>AllyUser\<close>, which is not among the source files.
  The normalized user keeps the raw profile (\<open>original\<close>), the identity fields and a
  token bundle. \<open>setOriginal\<close>, \<open>setFields\<close> and \<open>setToken\<close> store what they are
  given; the identity fields and the token bundle are kept as the arguments of
  \<open>setFields\<close> and of \<open>setToken\<close> in call order: every driver passes the identity
  first to the one and the access token first to the other. The Threads driver adds
  \<open>tokenInfo\<close>.
\<close>

record token_info =
  ti_expiresIn :: jsval
  ti_expiresAt :: "jsdate option"
  ti_tokenType :: jsval

record ally_user =
  original :: jsval
  userFields :: "jsval list"
  tokenFields :: "jsval list"
  tokenInfo :: "token_info option"

section \<open>LinkedIn\<close>

definition LinkedIn_profileUrl :: "driver \<Rightarrow> string" where
  "LinkedIn_profileUrl this =
     ''https://api.linkedin.com/v2/me?fields='' @ join '','' (fields' this)
       @ ''&projection=('' @ join '','' (fields' this)
       @ ''(displayImage~digitalmediaAsset:playableStreams))''"

definition LinkedIn_emailUrl :: string where
  "LinkedIn_emailUrl =
     ''https://api.linkedin.com/v2/clientAwareMemberHandles?q=members&projection=(elements*(primary,type,handle~))''"

definition LinkedIn_headers :: "jsval \<Rightarrow> (string \<times> jsval) list" where
  "LinkedIn_headers accessToken =
     [(''x-li-format'', JStr ''json''),
      (''Authorization'', JStr (''Bearer '' @ js_to_string accessToken))]"

definition LinkedIn_getUserProfile :: "env \<Rightarrow> driver \<Rightarrow> jsval \<Rightarrow> jsval io" where
  "LinkedIn_getUserProfile E this accessToken =
     call_got E (LinkedIn_profileUrl this) (LinkedIn_headers accessToken)"

definition LinkedIn_getUserEmail :: "env \<Rightarrow> jsval \<Rightarrow> jsval io" where
  "LinkedIn_getUserEmail E accessToken =
     call_got E LinkedIn_emailUrl (LinkedIn_headers accessToken)"

text \<open>
  \<open>email.elements.find(e => e.type === 'EMAIL')\<close>: the first element whose \<open>type\<close> is
  \<open>'EMAIL'\<close>, \<open>undefined\<close> when there is none. Reading \<open>e.type\<close> throws on a
  \<open>null\<close> element; \<open>find\<close> exists on arrays only.
\<close>

fun find_EMAIL :: "jsval list \<Rightarrow> exn + jsval" where
  "find_EMAIL [] = Inr JUndefined"
| "find_EMAIL (e # es) =
     (case js_get e ''type'' of
        Inl x \<Rightarrow> Inl x
      | Inr t \<Rightarrow> if t = JStr ''EMAIL'' then Inr e else find_EMAIL es)"

definition elements_find_EMAIL :: "jsval \<Rightarrow> exn + jsval" where
  "elements_find_EMAIL email =
     bind_exn (js_get email ''elements'') (\<lambda>elements.
       case elements of JArr es \<Rightarrow> find_EMAIL es | _ \<Rightarrow> Inl TypeError)"

text \<open>\<open>v.key.localized[Object.keys(v.key.localized)[0]]\<close>\<close>

definition first_localized :: "jsval \<Rightarrow> string \<Rightarrow> exn + jsval" where
  "first_localized v key =
     bind_exn (js_get v key) (\<lambda>n.
     bind_exn (js_get n ''localized'') (\<lambda>localized.
     first_own localized))"

text \<open>\<open>emailAddress && emailAddress['handle~'] && emailAddress['handle~'].emailAddress\<close>\<close>

definition handle_emailAddress :: "jsval \<Rightarrow> exn + jsval" where
  "handle_emailAddress emailAddress =
     (if \<not> js_truthy emailAddress then Inr emailAddress
      else bind_exn (js_get emailAddress ''handle~'') (\<lambda>h.
             if \<not> js_truthy h then Inr h else js_get h ''emailAddress''))"

text \<open>\<open>expires ? Number(expires) : null\<close>\<close>

definition expires_or_null :: "(string \<Rightarrow> jsval) \<Rightarrow> jsval \<Rightarrow> jsval" where
  "expires_or_null sn expires = (if js_truthy expires then js_Number sn expires else JNull)"

definition LinkedIn_buildAllyUser :: "(string \<Rightarrow> jsval) \<Rightarrow> jsval \<Rightarrow> jsval \<Rightarrow> jsval \<Rightarrow> exn + ally_user" where
  "LinkedIn_buildAllyUser sn userProfile email accessTokenResponse =
     (let expires = lodash_get2 accessTokenResponse ''result'' ''expires_in'' in
      bind_exn (elements_find_EMAIL email) (\<lambda>emailAddress.
      bind_exn (js_get userProfile ''id'') (\<lambda>a1.
      bind_exn (first_localized userProfile ''firstName'') (\<lambda>a2.
      bind_exn (first_localized userProfile ''lastName'') (\<lambda>a3.
      bind_exn (handle_emailAddress emailAddress) (\<lambda>a4.
      bind_exn (js_get accessTokenResponse ''accessToken'') (\<lambda>t1.
      bind_exn (js_get accessTokenResponse ''refreshToken'') (\<lambda>t2.
      Inr \<lparr> original = userProfile,
            userFields = [a1, a2, a3, a4, JNull, JNull],
            tokenFields = [t1, t2, JNull, expires_or_null sn expires],
            tokenInfo = None \<rparr>))))))))"

text \<open>
  \<open>getRedirectUrl\<close>. \<open>Object.assign(target, ...)\<close> writes into its first argument and
  returns it, so with a state the options object of the driver itself is updated; the
  driver after the call is the second component. \<open>getUrl\<close> is inherited from the OAuth2
  scheme and is a parameter.
\<close>

definition LinkedIn_getRedirectUrl ::
  "(string \<Rightarrow> string list \<Rightarrow> (string \<times> string) list \<Rightarrow> 'u) \<Rightarrow> driver \<Rightarrow> string option \<Rightarrow> 'u \<times> driver" where
  "LinkedIn_getRedirectUrl getUrl this state =
     (let this1 =
            (case state of
               None \<Rightarrow> this
             | Some s \<Rightarrow>
                 if s \<noteq> [] then
                   this\<lparr>redirectUriOptions := AList.update ''state'' s (redirectUriOptions this)\<rparr>
                 else this);
          options = redirectUriOptions this1
      in (getUrl (redirectUri this1) (scope this1) options, this1))"

definition LinkedIn_parseRedirectError :: "query \<Rightarrow> string" where
  "LinkedIn_parseRedirectError queryParams =
     (case queryParams ''error_description'' of
        None \<Rightarrow> ''Oauth failed during redirect''
      | Some m \<Rightarrow> if m \<noteq> [] then m else ''Oauth failed during redirect'')"

text \<open>
  \<open>getUser\<close>. Past the first check \<open>code\<close> is a non-empty string, and that string is
  what \<open>getAccessToken\<close> is given.
\<close>

definition LinkedIn_getUser :: "env \<Rightarrow> driver \<Rightarrow> query \<Rightarrow> string option \<Rightarrow> ally_user io" where
  "LinkedIn_getUser E this queryParams originalState =
     (let code = queryParams ''code'';
          state = queryParams ''state''
      in if \<not> str_truthy code then
           (let errorMessage = LinkedIn_parseRedirectError queryParams
            in io_throw (TokenExchangeException errorMessage JNull errorMessage))
         else if str_truthy state \<and> originalState \<noteq> state then io_throw InvalidState
         else
           io_bind (call_getAccessToken E (case code of Some c \<Rightarrow> c | None \<Rightarrow> []) (redirectUri this)
                      (JObj [(''grant_type'', JStr ''authorization_code'')])) (\<lambda>accessTokenResponse.
           io_bind (io_lift (js_get accessTokenResponse ''accessToken'')) (\<lambda>tok1.
           io_bind (LinkedIn_getUserProfile E this tok1) (\<lambda>userProfile.
           io_bind (io_lift (js_get accessTokenResponse ''accessToken'')) (\<lambda>tok2.
           io_bind (LinkedIn_getUserEmail E tok2) (\<lambda>emailAddress.
           io_lift (LinkedIn_buildAllyUser (strnum E) userProfile emailAddress accessTokenResponse)))))))"

definition LinkedIn_getUserByToken :: "env \<Rightarrow> driver \<Rightarrow> string \<Rightarrow> ally_user io" where
  "LinkedIn_getUserByToken E this accessToken =
     io_bind (LinkedIn_getUserProfile E this (JStr accessToken)) (\<lambda>userProfile.
     io_lift (LinkedIn_buildAllyUser (strnum E) userProfile JNull
                (JObj [(''accessToken'', JStr accessToken), (''refreshToken'', JNull)])))"

section \<open>TikTok\<close>

text \<open>
  The options TikTok and Threads hand to \<open>getAccessToken\<close>:
  \<open>{ grant_type: 'authorization_code', headers: { 'Content-Type': 'application/json' } }\<close>.
\<close>

definition exchange_options :: jsval where
  "exchange_options =
     JObj [(''grant_type'', JStr ''authorization_code''),
           (''headers'', JObj [(''Content-Type'', JStr ''application/json'')])]"

definition dq :: string where
  "dq = [CHR 0x22]"

definition TikTok_profileUrl :: "jsval \<Rightarrow> string" where
  "TikTok_profileUrl open_id =
     ''https://business-api.tiktok.com/open_api/v1.3/business/get/?business_id=''
       @ js_to_string open_id
       @ ''&fields=['' @ dq @ ''username'' @ dq @ '', '' @ dq @ ''display_name'' @ dq @ '', ''
       @ dq @ ''profile_image'' @ dq @ '', '' @ dq @ ''followers_count'' @ dq @ '']''"

text \<open>\<open>accessTokenResponse.result.data.open_id\<close>\<close>

definition result_data_open_id :: "jsval \<Rightarrow> exn + jsval" where
  "result_data_open_id accessTokenResponse =
     bind_exn (js_get accessTokenResponse ''result'') (\<lambda>result.
     bind_exn (js_get result ''data'') (\<lambda>data.
     js_get data ''open_id''))"

text \<open>\<open>userProfile.data.key\<close>\<close>

definition data_field :: "jsval \<Rightarrow> string \<Rightarrow> exn + jsval" where
  "data_field userProfile key =
     bind_exn (js_get userProfile ''data'') (\<lambda>data. js_get data key)"

definition TikTok_getUserProfile :: "env \<Rightarrow> jsval \<Rightarrow> jsval io" where
  "TikTok_getUserProfile E accessTokenResponse =
     io_bind (io_lift (result_data_open_id accessTokenResponse)) (\<lambda>open_id.
     io_bind (io_lift (js_get accessTokenResponse ''accessToken'')) (\<lambda>tok.
     call_got E (TikTok_profileUrl open_id)
       [(''Content-Type'', JStr ''application/json''), (''Access-Token'', tok)]))"

definition TikTok_buildAllyUser :: "(string \<Rightarrow> jsval) \<Rightarrow> jsval \<Rightarrow> jsval \<Rightarrow> exn + ally_user" where
  "TikTok_buildAllyUser sn userProfile accessTokenResponse =
     (let expires = lodash_get2 accessTokenResponse ''result'' ''expires_in'' in
      bind_exn (result_data_open_id accessTokenResponse) (\<lambda>a1.
      bind_exn (data_field userProfile ''name'') (\<lambda>a2.
      bind_exn (data_field userProfile ''display_name'') (\<lambda>a4.
      bind_exn (data_field userProfile ''profile_picture'') (\<lambda>a5.
      bind_exn (js_get accessTokenResponse ''accessToken'') (\<lambda>t1.
      bind_exn (js_get accessTokenResponse ''refreshToken'') (\<lambda>t2.
      Inr \<lparr> original = userProfile,
            userFields = [a1, a2, JNull, a4, a5],
            tokenFields = [t1, t2, JNull, expires_or_null sn expires],
            tokenInfo = None \<rparr>)))))))"

definition TikTok_getRedirectUrl ::
  "(string \<Rightarrow> string list \<Rightarrow> (string \<times> string) list \<Rightarrow> 'u) \<Rightarrow> driver \<Rightarrow> string option \<Rightarrow> 'u \<times> driver" where
  "TikTok_getRedirectUrl getUrl this state =
     (let this1 =
            (case state of
               None \<Rightarrow> this
             | Some s \<Rightarrow>
                 if s \<noteq> [] then
                   this\<lparr>redirectUriOptions :=
                          AList.update ''client_key'' (clientId this)
                            (AList.update ''state'' s (redirectUriOptions this))\<rparr>
                 else this);
          options = redirectUriOptions this1
      in (getUrl (redirectUri this1) (scope this1) options, this1))"

definition TikTok_parseRedirectError :: "query \<Rightarrow> string" where
  "TikTok_parseRedirectError queryParams =
     (case queryParams ''error'' of
        None \<Rightarrow> ''Oauth failed during redirect''
      | Some m \<Rightarrow> if m \<noteq> [] then m else ''Oauth failed during redirect'')"

definition TikTok_getUser :: "env \<Rightarrow> driver \<Rightarrow> query \<Rightarrow> string option \<Rightarrow> ally_user io" where
  "TikTok_getUser E this queryParams originalState =
     (let code = queryParams ''code'';
          state = queryParams ''state''
      in if \<not> str_truthy code then
           (let errorMessage = TikTok_parseRedirectError queryParams
            in io_throw (TokenExchangeException errorMessage JNull errorMessage))
         else if str_truthy state \<and> originalState \<noteq> state then io_throw InvalidState
         else
           io_bind (call_getAccessToken E (case code of Some c \<Rightarrow> c | None \<Rightarrow> []) (redirectUri this)
                      exchange_options) (\<lambda>accessTokenResponse.
           io_bind (TikTok_getUserProfile E accessTokenResponse) (\<lambda>userProfile.
           io_lift (TikTok_buildAllyUser (strnum E) userProfile accessTokenResponse))))"

definition TikTok_getUserByToken :: "env \<Rightarrow> driver \<Rightarrow> string \<Rightarrow> ally_user io" where
  "TikTok_getUserByToken E this accessToken =
     io_bind (TikTok_getUserProfile E (JStr accessToken)) (\<lambda>userProfile.
     io_lift (TikTok_buildAllyUser (strnum E) userProfile
                (JObj [(''accessToken'', JStr accessToken), (''refreshToken'', JNull)])))"

section \<open>Threads, the file without the long-lived token exchange\<close>

text \<open>
  Two of the source files declare \<open>class Threads\<close>. The definitions named \<open>Threads0\<close>
  are those of the file that exchanges the code only; the ones named \<open>Threads\<close> below
  are those of the file with the long-lived token.
\<close>

definition Threads_profileUrl :: "jsval \<Rightarrow> string" where
  "Threads_profileUrl accessToken =
     ''https://graph.threads.net/v1.0/me?fields=id,username,name,threads_profile_picture_url,threads_biography&access_token=''
       @ js_to_string accessToken"

definition Threads0_getUserProfile :: "env \<Rightarrow> jsval \<Rightarrow> jsval io" where
  "Threads0_getUserProfile E accessTokenResponse =
     io_bind (io_lift (js_get accessTokenResponse ''accessToken'')) (\<lambda>tok.
     call_got E (Threads_profileUrl tok) [(''Content-Type'', JStr ''application/json'')])"

text \<open>The \<open>console.log\<close> of this \<open>_buildAllyUser\<close> is left out.\<close>

definition Threads0_buildAllyUser :: "(string \<Rightarrow> jsval) \<Rightarrow> jsval \<Rightarrow> jsval \<Rightarrow> exn + ally_user" where
  "Threads0_buildAllyUser sn userProfile accessTokenResponse =
     (let expires = lodash_get2 accessTokenResponse ''result'' ''expires_in'' in
      bind_exn (js_get userProfile ''id'') (\<lambda>a1.
      bind_exn (js_get userProfile ''username'') (\<lambda>a2.
      bind_exn (js_get userProfile ''name'') (\<lambda>a4.
      bind_exn (js_get userProfile ''threads_profile_picture_url'') (\<lambda>a5.
      bind_exn (js_get accessTokenResponse ''accessToken'') (\<lambda>t1.
      Inr \<lparr> original = userProfile,
            userFields = [a1, a2, JNull, a4, a5],
            tokenFields = [t1, JNull, JNull, JNull],
            tokenInfo = None \<rparr>))))))"

definition Threads0_getRedirectUrl ::
  "(string \<Rightarrow> string list \<Rightarrow> (string \<times> string) list \<Rightarrow> 'u) \<Rightarrow> driver \<Rightarrow> string option \<Rightarrow> 'u \<times> driver" where
  "Threads0_getRedirectUrl getUrl this state =
     (let this1 =
            (case state of
               None \<Rightarrow> this
             | Some s \<Rightarrow>
                 if s \<noteq> [] then
                   this\<lparr>redirectUriOptions :=
                          AList.update ''client_key'' (clientId this)
                            (AList.update ''state'' s (redirectUriOptions this))\<rparr>
                 else this);
          options = redirectUriOptions this1
      in (getUrl (redirectUri this1) (scope this1) options, this1))"

definition Threads0_parseRedirectError :: "query \<Rightarrow> string" where
  "Threads0_parseRedirectError queryParams =
     (case queryParams ''error'' of
        None \<Rightarrow> ''Oauth failed during redirect''
      | Some m \<Rightarrow> if m \<noteq> [] then m else ''Oauth failed during redirect'')"

definition Threads0_getUser :: "env \<Rightarrow> driver \<Rightarrow> query \<Rightarrow> string option \<Rightarrow> ally_user io" where
  "Threads0_getUser E this queryParams originalState =
     (let code = queryParams ''code'';
          state = queryParams ''state''
      in if \<not> str_truthy code then
           (let errorMessage = Threads0_parseRedirectError queryParams
            in io_throw (TokenExchangeException errorMessage JNull errorMessage))
         else if str_truthy state \<and> originalState \<noteq> state then io_throw InvalidState
         else
           io_bind (call_getAccessToken E (case code of Some c \<Rightarrow> c | None \<Rightarrow> []) (redirectUri this)
                      exchange_options) (\<lambda>accessTokenResponse.
           io_bind (Threads0_getUserProfile E accessTokenResponse) (\<lambda>userProfile.
           io_lift (Threads0_buildAllyUser (strnum E) userProfile accessTokenResponse))))"

definition Threads0_getUserByToken :: "env \<Rightarrow> driver \<Rightarrow> string \<Rightarrow> ally_user io" where
  "Threads0_getUserByToken E this accessToken =
     io_bind (Threads0_getUserProfile E (JStr accessToken)) (\<lambda>userProfile.
     io_lift (Threads0_buildAllyUser (strnum E) userProfile
                (JObj [(''accessToken'', JStr accessToken), (''refreshToken'', JNull)])))"

section \<open>Threads, with the long-lived token\<close>

text \<open>
  The object literals this driver builds for a token result,
  \<open>{ accessToken, tokenType, expiresIn, expiresAt }\<close> and \<open>{ accessToken, refreshToken: null }\<close>,
  as one record; a property a literal does not have reads \<open>undefined\<close> (\<open>None\<close> for the
  date).
\<close>

record token_result =
  tr_accessToken :: jsval
  tr_refreshToken :: jsval
  tr_tokenType :: jsval
  tr_expiresIn :: jsval
  tr_expiresAt :: "jsdate option"

text \<open>\<open>new Date(Date.now() + (expires_in * 1000))\<close>\<close>

definition date_after :: "(string \<Rightarrow> jsval) \<Rightarrow> int \<Rightarrow> jsval \<Rightarrow> jsdate" where
  "date_after sn now expires_in =
     (case js_Number sn expires_in of
        JNum n \<Rightarrow> new_Date (now + (n * 1000))
      | _ \<Rightarrow> InvalidDate)"

text \<open>\<open>a || b\<close>\<close>

definition js_or :: "jsval \<Rightarrow> jsval \<Rightarrow> jsval" where
  "js_or a b = (if js_truthy a then a else b)"

definition Threads_getUserProfile :: "env \<Rightarrow> token_result \<Rightarrow> jsval io" where
  "Threads_getUserProfile E accessTokenResponse =
     call_got E (Threads_profileUrl (tr_accessToken accessTokenResponse))
       [(''Content-Type'', JStr ''application/json'')]"

definition Threads_exchangeUrl :: "driver \<Rightarrow> jsval \<Rightarrow> string" where
  "Threads_exchangeUrl this shortLivedToken =
     ''https://graph.threads.net/access_token?grant_type=th_exchange_token&client_secret=''
       @ clientSecret this @ ''&access_token='' @ js_to_string shortLivedToken"

definition Threads_token_of_body :: "env \<Rightarrow> jsval \<Rightarrow> exn + token_result" where
  "Threads_token_of_body E body =
     bind_exn (js_get body ''access_token'') (\<lambda>access_token.
     bind_exn (js_get body ''token_type'') (\<lambda>token_type.
     bind_exn (js_get body ''expires_in'') (\<lambda>expires_in.
     Inr \<lparr> tr_accessToken = access_token,
           tr_refreshToken = JUndefined,
           tr_tokenType = token_type,
           tr_expiresIn = expires_in,
           tr_expiresAt = Some (date_after (strnum E) (clock E) expires_in) \<rparr>)))"

definition Threads_exchangeForLongLivedToken :: "env \<Rightarrow> driver \<Rightarrow> jsval \<Rightarrow> token_result io" where
  "Threads_exchangeForLongLivedToken E this shortLivedToken =
     io_bind (call_got E (Threads_exchangeUrl this shortLivedToken)
                [(''Content-Type'', JStr ''application/json'')]) (\<lambda>body.
     io_lift (Threads_token_of_body E body))"

definition Threads_refreshUrl :: "jsval \<Rightarrow> string" where
  "Threads_refreshUrl longLivedToken =
     ''https://graph.threads.net/refresh_access_token?grant_type=th_refresh_token&access_token=''
       @ js_to_string longLivedToken"

definition Threads_refreshLongLivedToken :: "env \<Rightarrow> jsval \<Rightarrow> token_result io" where
  "Threads_refreshLongLivedToken E longLivedToken =
     io_bind (call_got E (Threads_refreshUrl longLivedToken)
                [(''Content-Type'', JStr ''application/json'')]) (\<lambda>body.
     io_lift (Threads_token_of_body E body))"

definition Threads_buildAllyUser :: "jsval \<Rightarrow> token_result \<Rightarrow> exn + ally_user" where
  "Threads_buildAllyUser userProfile accessTokenResponse =
     bind_exn (js_get userProfile ''id'') (\<lambda>a1.
     bind_exn (js_get userProfile ''username'') (\<lambda>a2.
     bind_exn (js_get userProfile ''name'') (\<lambda>a4.
     bind_exn (js_get userProfile ''threads_profile_picture_url'') (\<lambda>a5.
     Inr \<lparr> original = userProfile,
           userFields = [a1, a2, JNull, a4, a5],
           tokenFields = [tr_accessToken accessTokenResponse, JNull, JNull,
                          js_or (tr_expiresIn accessTokenResponse) JNull],
           tokenInfo = Some \<lparr> ti_expiresIn = tr_expiresIn accessTokenResponse,
                              ti_expiresAt = tr_expiresAt accessTokenResponse,
                              ti_tokenType = js_or (tr_tokenType accessTokenResponse) (JStr ''bearer'') \<rparr> \<rparr>))))"

definition Threads_getRedirectUrl ::
  "(string \<Rightarrow> string list \<Rightarrow> (string \<times> string) list \<Rightarrow> 'u) \<Rightarrow> driver \<Rightarrow> string option \<Rightarrow> 'u \<times> driver" where
  "Threads_getRedirectUrl getUrl this state =
     (let this1 =
            (case state of
               None \<Rightarrow> this
             | Some s \<Rightarrow>
                 if s \<noteq> [] then
                   this\<lparr>redirectUriOptions :=
                          AList.update ''client_key'' (clientId this)
                            (AList.update ''state'' s (redirectUriOptions this))\<rparr>
                 else this);
          options = redirectUriOptions this1
      in (getUrl (redirectUri this1) (scope this1) options, this1))"

definition Threads_parseRedirectError :: "query \<Rightarrow> string" where
  "Threads_parseRedirectError queryParams =
     (case queryParams ''error'' of
        None \<Rightarrow> ''Oauth failed during redirect''
      | Some m \<Rightarrow> if m \<noteq> [] then m else ''Oauth failed during redirect'')"

definition Threads_getUser :: "env \<Rightarrow> driver \<Rightarrow> query \<Rightarrow> string option \<Rightarrow> ally_user io" where
  "Threads_getUser E this queryParams originalState =
     (let code = queryParams ''code'';
          state = queryParams ''state''
      in if \<not> str_truthy code then
           (let errorMessage = Threads_parseRedirectError queryParams
            in io_throw (TokenExchangeException errorMessage JNull errorMessage))
         else if str_truthy state \<and> originalState \<noteq> state then io_throw InvalidState
         else
           io_bind (call_getAccessToken E (case code of Some c \<Rightarrow> c | None \<Rightarrow> []) (redirectUri this)
                      exchange_options) (\<lambda>shortLivedTokenResponse.
           io_bind (io_lift (js_get shortLivedTokenResponse ''accessToken'')) (\<lambda>shortLivedToken.
           io_bind (Threads_exchangeForLongLivedToken E this shortLivedToken) (\<lambda>longLivedTokenResponse.
           io_bind (Threads_getUserProfile E longLivedTokenResponse) (\<lambda>userProfile.
           io_lift (Threads_buildAllyUser userProfile longLivedTokenResponse))))))"

definition Threads_getUserByToken :: "env \<Rightarrow> driver \<Rightarrow> string \<Rightarrow> ally_user io" where
  "Threads_getUserByToken E this accessToken =
     io_bind (Threads_getUserProfile E
                \<lparr> tr_accessToken = JStr accessToken, tr_refreshToken = JUndefined,
                  tr_tokenType = JUndefined, tr_expiresIn = JUndefined, tr_expiresAt = None \<rparr>)
       (\<lambda>userProfile.
     io_lift (Threads_buildAllyUser userProfile
                \<lparr> tr_accessToken = JStr accessToken, tr_refreshToken = JNull,
                  tr_tokenType = JUndefined, tr_expiresIn = JUndefined, tr_expiresAt = None \<rparr>))"

section \<open>Threads: the refresh predicate\<close>

text \<open>
  \<^verbatim>\<open>
  shouldRefreshToken (expiresAt) {
    const now = new Date()
    const oneDayFromNow = new Date(now.getTime() + (24 * 60 * 60 * 1000))
    return expiresAt <= oneDayFromNow && expiresAt > now
  }
  \<close>
  The clock reading \<open>new Date()\<close> is the first argument, in milliseconds; it is the
  time value of a valid date.
\<close>

definition shouldRefreshToken :: "int \<Rightarrow> jsdate \<Rightarrow> bool" where
  "shouldRefreshToken ms expiresAt =
     (let now = Date ms;
          oneDayFromNow = new_Date (ms + (24 * 60 * 60 * 1000))
      in date_le expiresAt oneDayFromNow \<and> date_gt expiresAt now)"

section \<open>The redirect URL\<close>

text \<open>
  Modelled from the spec: \<open>getUrl(redirectUri, scope, options)\<close> of the OAuth2 scheme
  (\<open>../Schemes/OAuth2\<close>), which is not among the source files. The spec has it build
  the URL of the provider's authorization endpoint, whose query parameters always include
  \<open>client_id\<close>, \<open>redirect_uri\<close>, \<open>response_type=code\<close> and \<open>scope\<close> (the scopes
  joined with the provider's separator); the extra options are merged in, a caller-supplied
  value winning over a computed one except for \<open>response_type\<close>; a state among them is
  the \<open>state\<close> parameter, verbatim. The URL is kept as the endpoint and its query
  parameters by name, with the values as they are before any encoding for the wire.
\<close>

record redirect_url =
  url_baseUrl :: string
  url_authorizeUrl :: string
  url_query :: "string \<Rightarrow> string option"

definition getUrl ::
  "string \<Rightarrow> string \<Rightarrow> string \<Rightarrow> string \<Rightarrow> string \<Rightarrow> string list \<Rightarrow> (string \<times> string) list \<Rightarrow> redirect_url" where
  "getUrl baseUrl authorizeUrl scopeSeperator client_id uri sc extraOptions =
     \<lparr> url_baseUrl = baseUrl,
       url_authorizeUrl = authorizeUrl,
       url_query =
         ((map_of [(''client_id'', client_id), (''redirect_uri'', uri),
                   (''response_type'', ''code''), (''scope'', join scopeSeperator sc)]
             ++ map_of extraOptions)
          (''response_type'' \<mapsto> ''code'')) \<rparr>"

text \<open>
  The getters \<open>baseUrl\<close>, \<open>authorizeUrl\<close> and \<open>scopeSeperator\<close> of each driver, and
  the client id it was constructed with.
\<close>

definition LinkedIn_getUrl :: "driver \<Rightarrow> string \<Rightarrow> string list \<Rightarrow> (string \<times> string) list \<Rightarrow> redirect_url" where
  "LinkedIn_getUrl this =
     getUrl ''https://www.linkedin.com/oauth/v2'' ''authorization'' '' '' (clientId this)"

definition TikTok_getUrl :: "driver \<Rightarrow> string \<Rightarrow> string list \<Rightarrow> (string \<times> string) list \<Rightarrow> redirect_url" where
  "TikTok_getUrl this =
     getUrl [] ''https://www.tiktok.com/v2/auth/authorize'' '','' (clientId this)"

definition Threads_getUrl :: "driver \<Rightarrow> string \<Rightarrow> string list \<Rightarrow> (string \<times> string) list \<Rightarrow> redirect_url" where
  "Threads_getUrl this =
     getUrl [] ''https://threads.net/oauth/authorize'' '','' (clientId this)"

section \<open>Classes of failure\<close>

text \<open>
  The failures that come from an outbound call or from reading a response, as opposed to
  the two exceptions \<open>getUser\<close> throws itself.
\<close>

fun late_error :: "exn \<Rightarrow> bool" where
  "late_error TypeError = True"
| "late_error (GetAccessTokenRejected m) = True"
| "late_error (GotRejected m) = True"
| "late_error (TokenExchangeException m st orig) = False"
| "late_error InvalidState = False"

section \<open>Sample inputs\<close>

text \<open>
  A configuration without options, and stubbed outbound calls: the code exchange answers
  with the short-lived token \<open>S\<close>, the Threads token endpoint with the long-lived token
  \<open>L\<close>, LinkedIn's e-mail endpoint with one address, every other URL with a profile.
\<close>

definition sample_config :: config where
  "sample_config =
     \<lparr> cfg_clientId = ''client-1'',
       cfg_clientSecret = ''secret-1'',
       cfg_redirectUri = ''https://app.example/callback'',
       cfg_scope = [],
       cfg_fields = [],
       cfg_options = [] \<rparr>"

definition sample_token :: jsval where
  "sample_token =
     JObj [(''accessToken'', JStr ''S''),
           (''refreshToken'', JNull),
           (''result'', JObj [(''expires_in'', JNum 3600),
                              (''data'', JObj [(''open_id'', JStr ''42'')])])]"

definition sample_profile :: jsval where
  "sample_profile =
     JObj [(''id'', JStr ''42''),
           (''username'', JStr ''alice''),
           (''name'', JStr ''Alice Liddell''),
           (''firstName'', JObj [(''localized'', JObj [(''en_US'', JStr ''Alice'')])]),
           (''lastName'', JObj [(''localized'', JObj [(''en_US'', JStr ''Liddell'')])]),
           (''data'', JObj [(''name'', JStr ''alice''), (''display_name'', JStr ''Alice'')])]"

definition sample_email :: jsval where
  "sample_email =
     JObj [(''elements'',
            JArr [JObj [(''type'', JStr ''EMAIL''),
                        (''handle~'', JObj [(''emailAddress'', JStr ''alice@example.org'')])]])]"

definition sample_long_lived :: jsval where
  "sample_long_lived =
     JObj [(''access_token'', JStr ''L''), (''token_type'', JStr ''bearer''),
           (''expires_in'', JNum 5184000)]"

definition sample_env :: env where
  "sample_env =
     \<lparr> getAccessToken = (\<lambda>code uri options. Inr sample_token),
       got = (\<lambda>url headers.
                if url = LinkedIn_emailUrl then Inr sample_email
                else if take 38 url = ''https://graph.threads.net/access_token'' then Inr sample_long_lived
                else Inr sample_profile),
       strnum = (\<lambda>s. JNaN),
       clock = 1000 \<rparr>"

definition sample_query :: "(string \<times> string) list \<Rightarrow> query" where
  "sample_query ps = map_of ps"

text \<open>
  A stand-in for the inherited \<open>getUrl\<close> that keeps everything it is given, so that two
  URLs are equal only if the redirect URI, the scopes and the options are.
\<close>

definition sample_getUrl ::
  "string \<Rightarrow> string list \<Rightarrow> (string \<times> string) list \<Rightarrow> string \<times> string list \<times> (string \<times> string) list" where
  "sample_getUrl uri sc options = (uri, sc, options)"

section \<open>Auxiliary facts\<close>

lemma fst_io_bind:
  "fst (io_bind m f) = fst m @ (case snd m of Inl e \<Rightarrow> [] | Inr v \<Rightarrow> fst (f v))"
  by (cases m) (auto simp: io_bind_def split: sum.splits prod.splits)

lemma snd_io_bind:
  "snd (io_bind m f) = (case snd m of Inl e \<Rightarrow> Inl e | Inr v \<Rightarrow> snd (f v))"
  by (cases m) (auto simp: io_bind_def split: sum.splits prod.splits)

lemma io_lift_simps [simp]: "fst (io_lift r) = []" "snd (io_lift r) = r"
  by (simp_all add: io_lift_def)

lemma io_throw_simps [simp]: "fst (io_throw e) = []" "snd (io_throw e) = Inl e"
  by (simp_all add: io_throw_def)

lemma js_get_late: "js_get v k = Inl e \<Longrightarrow> e = TypeError"
  by (cases v) auto

lemma bind_exn_Inl:
  "bind_exn m f = Inl e \<Longrightarrow> m = Inl e \<or> (\<exists>v. m = Inr v \<and> f v = Inl e)"
  by (auto simp: bind_exn_def split: sum.splits)

lemma bind_exn_simps [simp]:
  "bind_exn (Inl e) f = Inl e" "bind_exn (Inr v) f = f v"
  by (simp_all add: bind_exn_def)

lemma bind_exn_TypeError:
  assumes "\<And>e. m = Inl e \<Longrightarrow> e = TypeError"
    and "\<And>v e. f v = Inl e \<Longrightarrow> e = TypeError"
    and "bind_exn m f = Inl e"
  shows "e = TypeError"
  using assms by (cases m) auto

lemma first_own_late: "first_own v = Inl e \<Longrightarrow> e = TypeError"
  by (cases v rule: first_own.cases) auto

lemma find_EMAIL_late: "find_EMAIL es = Inl e \<Longrightarrow> e = TypeError"
  by (induction es) (auto split: sum.splits if_splits dest: js_get_late)

lemma elements_find_EMAIL_late: "elements_find_EMAIL v = Inl e \<Longrightarrow> e = TypeError"
  unfolding elements_find_EMAIL_def
  by (erule bind_exn_TypeError [rotated 2]) (auto dest: js_get_late find_EMAIL_late split: jsval.splits)

lemma first_localized_late: "first_localized v k = Inl e \<Longrightarrow> e = TypeError"
  unfolding first_localized_def
  by (auto dest!: bind_exn_Inl dest: js_get_late first_own_late)

lemma handle_emailAddress_late: "handle_emailAddress v = Inl e \<Longrightarrow> e = TypeError"
  unfolding handle_emailAddress_def
  by (auto dest!: bind_exn_Inl dest: js_get_late split: if_splits)

lemma LinkedIn_buildAllyUser_late:
  "LinkedIn_buildAllyUser sn p em a = Inl e \<Longrightarrow> e = TypeError"
  unfolding LinkedIn_buildAllyUser_def Let_def
  by (auto dest!: bind_exn_Inl dest: js_get_late first_localized_late handle_emailAddress_late elements_find_EMAIL_late)

lemma result_data_open_id_late: "result_data_open_id a = Inl e \<Longrightarrow> e = TypeError"
  unfolding result_data_open_id_def
  by (auto dest!: bind_exn_Inl dest: js_get_late)

lemma data_field_late: "data_field p k = Inl e \<Longrightarrow> e = TypeError"
  unfolding data_field_def
  by (auto dest!: bind_exn_Inl dest: js_get_late)

lemma TikTok_buildAllyUser_late:
  "TikTok_buildAllyUser sn p a = Inl e \<Longrightarrow> e = TypeError"
  unfolding TikTok_buildAllyUser_def Let_def
  by (auto dest!: bind_exn_Inl dest: js_get_late result_data_open_id_late data_field_late)

lemma Threads0_buildAllyUser_late:
  "Threads0_buildAllyUser sn p a = Inl e \<Longrightarrow> e = TypeError"
  unfolding Threads0_buildAllyUser_def Let_def
  by (auto dest!: bind_exn_Inl dest: js_get_late)

lemma Threads_buildAllyUser_late:
  "Threads_buildAllyUser p a = Inl e \<Longrightarrow> e = TypeError"
  unfolding Threads_buildAllyUser_def Let_def
  by (auto dest!: bind_exn_Inl dest: js_get_late)


lemma io_bind_late:
  assumes "\<And>e. snd m = Inl e \<Longrightarrow> late_error e"
    and "\<And>v e. snd (f v) = Inl e \<Longrightarrow> late_error e"
    and "snd (io_bind m f) = Inl e"
  shows "late_error e"
  using assms by (cases "snd m") (auto simp: snd_io_bind)

lemma call_getAccessToken_simps [simp]:
  "fst (call_getAccessToken E c u opts) = [GetAccessTokenCall c u opts]"
  "snd (call_getAccessToken E c u opts) = Inl e \<Longrightarrow> late_error e"
  by (auto simp: call_getAccessToken_def split: sum.splits)

lemma call_got_simps [simp]:
  "fst (call_got E u h) = [GotCall u h]"
  "snd (call_got E u h) = Inl e \<Longrightarrow> late_error e"
  by (auto simp: call_got_def split: sum.splits)

lemma str_truthy_Some: "str_truthy x \<Longrightarrow> \<exists>c. x = Some c \<and> c \<noteq> []"
  by (cases x) auto

lemma LinkedIn_getUserProfile_late:
  "snd (LinkedIn_getUserProfile E this tok) = Inl e \<Longrightarrow> late_error e"
  by (simp add: LinkedIn_getUserProfile_def)

lemma LinkedIn_getUserEmail_late:
  "snd (LinkedIn_getUserEmail E tok) = Inl e \<Longrightarrow> late_error e"
  by (simp add: LinkedIn_getUserEmail_def)

lemma TikTok_getUserProfile_late:
  "snd (TikTok_getUserProfile E a) = Inl e \<Longrightarrow> late_error e"
  unfolding TikTok_getUserProfile_def
  by (erule io_bind_late [rotated 2] | auto dest: js_get_late result_data_open_id_late)+

lemma Threads0_getUserProfile_late:
  "snd (Threads0_getUserProfile E a) = Inl e \<Longrightarrow> late_error e"
  unfolding Threads0_getUserProfile_def
  by (erule io_bind_late [rotated 2] | auto dest: js_get_late)+

lemma Threads_getUserProfile_late:
  "snd (Threads_getUserProfile E a) = Inl e \<Longrightarrow> late_error e"
  by (simp add: Threads_getUserProfile_def)

lemma Threads_token_of_body_late:
  "Threads_token_of_body E body = Inl e \<Longrightarrow> e = TypeError"
  unfolding Threads_token_of_body_def
  by (auto dest!: bind_exn_Inl dest: js_get_late)

lemma Threads_exchangeForLongLivedToken_late:
  "snd (Threads_exchangeForLongLivedToken E this tok) = Inl e \<Longrightarrow> late_error e"
  unfolding Threads_exchangeForLongLivedToken_def
  by (erule io_bind_late [rotated 2] | auto dest: Threads_token_of_body_late)+

text \<open>What \<open>getUser\<close> does once both checks have passed.\<close>

lemma LinkedIn_flow_late:
  "snd (io_bind (call_getAccessToken E c u opts) (\<lambda>a.
        io_bind (io_lift (js_get a ''accessToken'')) (\<lambda>tok1.
        io_bind (LinkedIn_getUserProfile E this tok1) (\<lambda>userProfile.
        io_bind (io_lift (js_get a ''accessToken'')) (\<lambda>tok2.
        io_bind (LinkedIn_getUserEmail E tok2) (\<lambda>emailAddress.
        io_lift (LinkedIn_buildAllyUser sn userProfile emailAddress a))))))) = Inl e
   \<Longrightarrow> late_error e"
  by (erule io_bind_late [rotated 2]
      | auto dest: js_get_late LinkedIn_buildAllyUser_late LinkedIn_getUserProfile_late
          LinkedIn_getUserEmail_late)+

lemma TikTok_flow_late:
  "snd (io_bind (call_getAccessToken E c u opts) (\<lambda>a.
        io_bind (TikTok_getUserProfile E a) (\<lambda>userProfile.
        io_lift (TikTok_buildAllyUser sn userProfile a)))) = Inl e
   \<Longrightarrow> late_error e"
  by (erule io_bind_late [rotated 2]
      | auto dest: TikTok_buildAllyUser_late TikTok_getUserProfile_late)+

lemma Threads0_flow_late:
  "snd (io_bind (call_getAccessToken E c u opts) (\<lambda>a.
        io_bind (Threads0_getUserProfile E a) (\<lambda>userProfile.
        io_lift (Threads0_buildAllyUser sn userProfile a)))) = Inl e
   \<Longrightarrow> late_error e"
  by (erule io_bind_late [rotated 2]
      | auto dest: Threads0_buildAllyUser_late Threads0_getUserProfile_late)+

lemma Threads_flow_late:
  "snd (io_bind (call_getAccessToken E c u opts) (\<lambda>short.
        io_bind (io_lift (js_get short ''accessToken'')) (\<lambda>tok.
        io_bind (Threads_exchangeForLongLivedToken E this tok) (\<lambda>long.
        io_bind (Threads_getUserProfile E long) (\<lambda>userProfile.
        io_lift (Threads_buildAllyUser userProfile long)))))) = Inl e
   \<Longrightarrow> late_error e"
  by (erule io_bind_late [rotated 2]
      | auto dest: js_get_late Threads_buildAllyUser_late Threads_getUserProfile_late
          Threads_exchangeForLongLivedToken_late)+

lemma LinkedIn_getUser_no_code:
  "\<not> str_truthy (q ''code'') \<Longrightarrow>
   LinkedIn_getUser E this q os =
     ([], Inl (TokenExchangeException (LinkedIn_parseRedirectError q) JNull (LinkedIn_parseRedirectError q)))"
  by (simp add: LinkedIn_getUser_def Let_def io_throw_def)

lemma LinkedIn_getUser_bad_state:
  "str_truthy (q ''code'') \<Longrightarrow> str_truthy (q ''state'') \<Longrightarrow> os \<noteq> q ''state'' \<Longrightarrow>
   LinkedIn_getUser E this q os = ([], Inl InvalidState)"
  by (simp add: LinkedIn_getUser_def Let_def io_throw_def)

lemma LinkedIn_getUser_exchange_first:
  assumes "q ''code'' = Some c" "c \<noteq> []" "\<not> (str_truthy (q ''state'') \<and> os \<noteq> q ''state'')"
  shows "\<exists>t. fst (LinkedIn_getUser E this q os) = GetAccessTokenCall c (redirectUri this) (JObj [(''grant_type'', JStr ''authorization_code'')]) # t"
  using assms by (auto simp: LinkedIn_getUser_def Let_def fst_io_bind)

lemma LinkedIn_getUser_late:
  assumes "str_truthy (q ''code'')" "\<not> (str_truthy (q ''state'') \<and> os \<noteq> q ''state'')"
    and "snd (LinkedIn_getUser E this q os) = Inl e"
  shows "late_error e"
  using assms by (auto simp: LinkedIn_getUser_def Let_def dest: LinkedIn_flow_late)

lemma LinkedIn_getUser_InvalidState_iff:
  "snd (LinkedIn_getUser E this q os) = Inl InvalidState \<longleftrightarrow>
   str_truthy (q ''code'') \<and> str_truthy (q ''state'') \<and> os \<noteq> q ''state''"
proof (cases "str_truthy (q ''code'')")
  case False
  then show ?thesis by (simp add: LinkedIn_getUser_no_code)
next
  case code: True
  show ?thesis
  proof (cases "str_truthy (q ''state'') \<and> os \<noteq> q ''state''")
    case True
    with code show ?thesis by (simp add: LinkedIn_getUser_bad_state)
  next
    case False
    have "snd (LinkedIn_getUser E this q os) \<noteq> Inl InvalidState"
      using LinkedIn_getUser_late [OF code False, of E this InvalidState] by auto
    with code False show ?thesis by blast
  qed
qed

lemma TikTok_getUser_no_code:
  "\<not> str_truthy (q ''code'') \<Longrightarrow>
   TikTok_getUser E this q os =
     ([], Inl (TokenExchangeException (TikTok_parseRedirectError q) JNull (TikTok_parseRedirectError q)))"
  by (simp add: TikTok_getUser_def Let_def io_throw_def)

lemma TikTok_getUser_bad_state:
  "str_truthy (q ''code'') \<Longrightarrow> str_truthy (q ''state'') \<Longrightarrow> os \<noteq> q ''state'' \<Longrightarrow>
   TikTok_getUser E this q os = ([], Inl InvalidState)"
  by (simp add: TikTok_getUser_def Let_def io_throw_def)

lemma TikTok_getUser_exchange_first:
  assumes "q ''code'' = Some c" "c \<noteq> []" "\<not> (str_truthy (q ''state'') \<and> os \<noteq> q ''state'')"
  shows "\<exists>t. fst (TikTok_getUser E this q os) = GetAccessTokenCall c (redirectUri this) exchange_options # t"
  using assms by (auto simp: TikTok_getUser_def Let_def fst_io_bind)

lemma TikTok_getUser_late:
  assumes "str_truthy (q ''code'')" "\<not> (str_truthy (q ''state'') \<and> os \<noteq> q ''state'')"
    and "snd (TikTok_getUser E this q os) = Inl e"
  shows "late_error e"
  using assms by (auto simp: TikTok_getUser_def Let_def dest: TikTok_flow_late)

lemma TikTok_getUser_InvalidState_iff:
  "snd (TikTok_getUser E this q os) = Inl InvalidState \<longleftrightarrow>
   str_truthy (q ''code'') \<and> str_truthy (q ''state'') \<and> os \<noteq> q ''state''"
proof (cases "str_truthy (q ''code'')")
  case False
  then show ?thesis by (simp add: TikTok_getUser_no_code)
next
  case code: True
  show ?thesis
  proof (cases "str_truthy (q ''state'') \<and> os \<noteq> q ''state''")
    case True
    with code show ?thesis by (simp add: TikTok_getUser_bad_state)
  next
    case False
    have "snd (TikTok_getUser E this q os) \<noteq> Inl InvalidState"
      using TikTok_getUser_late [OF code False, of E this InvalidState] by auto
    with code False show ?thesis by blast
  qed
qed

lemma Threads0_getUser_no_code:
  "\<not> str_truthy (q ''code'') \<Longrightarrow>
   Threads0_getUser E this q os =
     ([], Inl (TokenExchangeException (Threads0_parseRedirectError q) JNull (Threads0_parseRedirectError q)))"
  by (simp add: Threads0_getUser_def Let_def io_throw_def)

lemma Threads0_getUser_bad_state:
  "str_truthy (q ''code'') \<Longrightarrow> str_truthy (q ''state'') \<Longrightarrow> os \<noteq> q ''state'' \<Longrightarrow>
   Threads0_getUser E this q os = ([], Inl InvalidState)"
  by (simp add: Threads0_getUser_def Let_def io_throw_def)

lemma Threads0_getUser_exchange_first:
  assumes "q ''code'' = Some c" "c \<noteq> []" "\<not> (str_truthy (q ''state'') \<and> os \<noteq> q ''state'')"
  shows "\<exists>t. fst (Threads0_getUser E this q os) = GetAccessTokenCall c (redirectUri this) exchange_options # t"
  using assms by (auto simp: Threads0_getUser_def Let_def fst_io_bind)

lemma Threads0_getUser_late:
  assumes "str_truthy (q ''code'')" "\<not> (str_truthy (q ''state'') \<and> os \<noteq> q ''state'')"
    and "snd (Threads0_getUser E this q os) = Inl e"
  shows "late_error e"
  using assms by (auto simp: Threads0_getUser_def Let_def dest: Threads0_flow_late)

lemma Threads0_getUser_InvalidState_iff:
  "snd (Threads0_getUser E this q os) = Inl InvalidState \<longleftrightarrow>
   str_truthy (q ''code'') \<and> str_truthy (q ''state'') \<and> os \<noteq> q ''state''"
proof (cases "str_truthy (q ''code'')")
  case False
  then show ?thesis by (simp add: Threads0_getUser_no_code)
next
  case code: True
  show ?thesis
  proof (cases "str_truthy (q ''state'') \<and> os \<noteq> q ''state''")
    case True
    with code show ?thesis by (simp add: Threads0_getUser_bad_state)
  next
    case False
    have "snd (Threads0_getUser E this q os) \<noteq> Inl InvalidState"
      using Threads0_getUser_late [OF code False, of E this InvalidState] by auto
    with code False show ?thesis by blast
  qed
qed

lemma Threads_getUser_no_code:
  "\<not> str_truthy (q ''code'') \<Longrightarrow>
   Threads_getUser E this q os =
     ([], Inl (TokenExchangeException (Threads_parseRedirectError q) JNull (Threads_parseRedirectError q)))"
  by (simp add: Threads_getUser_def Let_def io_throw_def)

lemma Threads_getUser_bad_state:
  "str_truthy (q ''code'') \<Longrightarrow> str_truthy (q ''state'') \<Longrightarrow> os \<noteq> q ''state'' \<Longrightarrow>
   Threads_getUser E this q os = ([], Inl InvalidState)"
  by (simp add: Threads_getUser_def Let_def io_throw_def)

lemma Threads_getUser_exchange_first:
  assumes "q ''code'' = Some c" "c \<noteq> []" "\<not> (str_truthy (q ''state'') \<and> os \<noteq> q ''state'')"
  shows "\<exists>t. fst (Threads_getUser E this q os) = GetAccessTokenCall c (redirectUri this) exchange_options # t"
  using assms by (auto simp: Threads_getUser_def Let_def fst_io_bind)

lemma Threads_getUser_late:
  assumes "str_truthy (q ''code'')" "\<not> (str_truthy (q ''state'') \<and> os \<noteq> q ''state'')"
    and "snd (Threads_getUser E this q os) = Inl e"
  shows "late_error e"
  using assms by (auto simp: Threads_getUser_def Let_def dest: Threads_flow_late)

lemma Threads_getUser_InvalidState_iff:
  "snd (Threads_getUser E this q os) = Inl InvalidState \<longleftrightarrow>
   str_truthy (q ''code'') \<and> str_truthy (q ''state'') \<and> os \<noteq> q ''state''"
proof (cases "str_truthy (q ''code'')")
  case False
  then show ?thesis by (simp add: Threads_getUser_no_code)
next
  case code: True
  show ?thesis
  proof (cases "str_truthy (q ''state'') \<and> os \<noteq> q ''state''")
    case True
    with code show ?thesis by (simp add: Threads_getUser_bad_state)
  next
    case False
    have "snd (Threads_getUser E this q os) \<noteq> Inl InvalidState"
      using Threads_getUser_late [OF code False, of E this InvalidState] by auto
    with code False show ?thesis by blast
  qed
qed

text \<open>What a successful run tells about its steps.\<close>

lemma io_bind_Inr:
  assumes "io_bind m f = (t, Inr y)"
  shows "\<exists>t1 v t2. m = (t1, Inr v) \<and> f v = (t2, Inr y) \<and> t = t1 @ t2"
  using assms by (cases m) (auto simp: io_bind_def split: sum.splits prod.splits)

lemma io_lift_Inr: "io_lift r = (t, Inr v) \<Longrightarrow> t = [] \<and> r = Inr v"
  by (simp add: io_lift_def)

lemma call_got_Inr:
  "call_got E u h = (t, Inr b) \<Longrightarrow> t = [GotCall u h] \<and> got E u h = Inr b"
  by (auto simp: call_got_def split: sum.splits)

lemma call_getAccessToken_Inr:
  "call_getAccessToken E c u opts = (t, Inr a) \<Longrightarrow>
   t = [GetAccessTokenCall c u opts] \<and> getAccessToken E c u opts = Inr a"
  by (auto simp: call_getAccessToken_def split: sum.splits)

text \<open>\<open>getRedirectUrl\<close> with and without a state; a driver that was handed \<open>null\<close> for the e-mail resource.\<close>

lemma LinkedIn_buildAllyUser_null_email:
  "LinkedIn_buildAllyUser sn p JNull a = Inl TypeError"
  by (simp add: LinkedIn_buildAllyUser_def Let_def elements_find_EMAIL_def)

lemma getRedirectUrl_with_state:
  assumes "s \<noteq> []"
  shows "LinkedIn_getRedirectUrl g this (Some s) =
           (g (redirectUri this) (scope this) (AList.update ''state'' s (redirectUriOptions this)),
            this\<lparr>redirectUriOptions := AList.update ''state'' s (redirectUriOptions this)\<rparr>)"
    and "TikTok_getRedirectUrl g this (Some s) =
           (g (redirectUri this) (scope this)
              (AList.update ''client_key'' (clientId this)
                 (AList.update ''state'' s (redirectUriOptions this))),
            this\<lparr>redirectUriOptions := AList.update ''client_key'' (clientId this)
                 (AList.update ''state'' s (redirectUriOptions this))\<rparr>)"
    and "Threads0_getRedirectUrl g this (Some s) =
           (g (redirectUri this) (scope this)
              (AList.update ''client_key'' (clientId this)
                 (AList.update ''state'' s (redirectUriOptions this))),
            this\<lparr>redirectUriOptions := AList.update ''client_key'' (clientId this)
                 (AList.update ''state'' s (redirectUriOptions this))\<rparr>)"
    and "Threads_getRedirectUrl g this (Some s) =
           (g (redirectUri this) (scope this)
              (AList.update ''client_key'' (clientId this)
                 (AList.update ''state'' s (redirectUriOptions this))),
            this\<lparr>redirectUriOptions := AList.update ''client_key'' (clientId this)
                 (AList.update ''state'' s (redirectUriOptions this))\<rparr>)"
  using assms
  by (simp_all add: LinkedIn_getRedirectUrl_def TikTok_getRedirectUrl_def
      Threads0_getRedirectUrl_def Threads_getRedirectUrl_def Let_def)

lemma getRedirectUrl_without_state:
  assumes "\<not> str_truthy state"
  shows "LinkedIn_getRedirectUrl g this state =
           (g (redirectUri this) (scope this) (redirectUriOptions this), this)"
    and "TikTok_getRedirectUrl g this state =
           (g (redirectUri this) (scope this) (redirectUriOptions this), this)"
    and "Threads0_getRedirectUrl g this state =
           (g (redirectUri this) (scope this) (redirectUriOptions this), this)"
    and "Threads_getRedirectUrl g this state =
           (g (redirectUri this) (scope this) (redirectUriOptions this), this)"
  using assms
  by (cases state;
      simp add: LinkedIn_getRedirectUrl_def TikTok_getRedirectUrl_def
        Threads0_getRedirectUrl_def Threads_getRedirectUrl_def Let_def)+

lemma state_option: "map_of (AList.update ''state'' s opts) ''state'' = Some s"
  "map_of (AList.update ''client_key'' c (AList.update ''state'' s opts)) ''state'' = Some s"
  by (simp_all add: update_conv')

text \<open>
  The mappings as equations: a read fails exactly on \<open>undefined\<close> and \<open>null\<close>, and
  otherwise gives what the walk of lodash gives.
\<close>

lemma js_get_nullish:
  "js_get v k = (if nullish v then Inl TypeError else Inr (safe_get v k))"
  by (cases v) (simp_all add: nullish_def safe_get_def)

lemma safe_get_nullish [simp]: "nullish v \<Longrightarrow> safe_get v k = JUndefined"
  by (auto simp: nullish_def safe_get_def)

lemma nullish_safe_get [simp]: "nullish v \<Longrightarrow> nullish (safe_get v k)"
  by (simp add: nullish_def)

lemma nullish_simps [simp]: "nullish JUndefined" "nullish JNull"
  by (simp_all add: nullish_def)

lemma not_nullish_safe_get: "\<not> nullish (safe_get v k) \<Longrightarrow> \<not> nullish v"
  by (auto simp: nullish_def)

lemma first_own_nullish: "(first_own v = Inl TypeError) = nullish v"
  by (cases v rule: first_own.cases) (simp_all add: nullish_def)

lemma first_own_total: "\<not> nullish v \<Longrightarrow> \<exists>x. first_own v = Inr x"
  by (cases v rule: first_own.cases) (simp_all add: nullish_def)

lemma result_data_open_id_eq:
  "result_data_open_id a =
     (if nullish (safe_get (safe_get a ''result'') ''data'') then Inl TypeError
      else Inr (safe_get (safe_get (safe_get a ''result'') ''data'') ''open_id''))"
  by (auto simp: result_data_open_id_def js_get_nullish)

lemma data_field_eq:
  "data_field p k =
     (if nullish (safe_get p ''data'') then Inl TypeError
      else Inr (safe_get (safe_get p ''data'') k))"
  by (auto simp: data_field_def js_get_nullish)

lemma TikTok_buildAllyUser_eq:
  "TikTok_buildAllyUser sn p a =
     (if nullish (safe_get (safe_get a ''result'') ''data'') \<or> nullish (safe_get p ''data'')
      then Inl TypeError
      else Inr \<lparr> original = p,
                 userFields = [safe_get (safe_get (safe_get a ''result'') ''data'') ''open_id'',
                               safe_get (safe_get p ''data'') ''name'', JNull,
                               safe_get (safe_get p ''data'') ''display_name'',
                               safe_get (safe_get p ''data'') ''profile_picture''],
                 tokenFields = [safe_get a ''accessToken'', safe_get a ''refreshToken'', JNull,
                                expires_or_null sn (lodash_get2 a ''result'' ''expires_in'')],
                 tokenInfo = None \<rparr>)"
proof (cases "nullish (safe_get (safe_get a ''result'') ''data'')")
  case True
  then show ?thesis
    by (simp add: TikTok_buildAllyUser_def Let_def result_data_open_id_eq)
next
  case False
  then have a: "\<not> nullish a"
    by (auto dest: not_nullish_safe_get)
  with False show ?thesis
    by (simp add: TikTok_buildAllyUser_def Let_def result_data_open_id_eq data_field_eq
        js_get_nullish)
qed

lemma first_localized_eq:
  "first_localized p k =
     (if nullish (safe_get (safe_get p k) ''localized'') then Inl TypeError
      else first_own (safe_get (safe_get p k) ''localized''))"
  by (auto simp: first_localized_def js_get_nullish first_own_nullish)

lemma find_EMAIL_eq:
  "find_EMAIL es =
     (if \<exists>x\<in>set (takeWhile (\<lambda>e. safe_get e ''type'' \<noteq> JStr ''EMAIL'') es). nullish x
      then Inl TypeError
      else Inr (case dropWhile (\<lambda>e. safe_get e ''type'' \<noteq> JStr ''EMAIL'') es of
                  [] \<Rightarrow> JUndefined | e # _ \<Rightarrow> e))"
  by (induction es) (auto simp: js_get_nullish)

lemma elements_find_EMAIL_eq:
  "elements_find_EMAIL em =
     (case safe_get em ''elements'' of JArr es \<Rightarrow> find_EMAIL es | _ \<Rightarrow> Inl TypeError)"
  by (cases "nullish em") (simp_all add: elements_find_EMAIL_def js_get_nullish)

lemma js_truthy_not_nullish: "js_truthy v \<Longrightarrow> \<not> nullish v"
  by (auto simp: nullish_def)

lemma handle_emailAddress_eq:
  "handle_emailAddress v =
     Inr (if \<not> js_truthy v then v
          else if \<not> js_truthy (safe_get v ''handle~'') then safe_get v ''handle~''
          else safe_get (safe_get v ''handle~'') ''emailAddress'')"
  by (auto simp: handle_emailAddress_def js_get_nullish dest: js_truthy_not_nullish)

lemma EMAIL_entry_truthy: "safe_get e ''type'' = JStr ''EMAIL'' \<Longrightarrow> js_truthy e"
  by (cases e) (simp_all add: safe_get_def)

lemma found_value_aux:
  assumes "case d of [] \<Rightarrow> True | e # _ \<Rightarrow> js_truthy e"
  shows "(let found = (case d of [] \<Rightarrow> JUndefined | e # _ \<Rightarrow> e)
    in if \<not> js_truthy found then found
       else if \<not> js_truthy (safe_get found ''handle~'') then safe_get found ''handle~''
       else safe_get (safe_get found ''handle~'') ''emailAddress'')
   = (case d of
        [] \<Rightarrow> JUndefined
      | e # _ \<Rightarrow> if js_truthy (safe_get e ''handle~'')
                 then safe_get (safe_get e ''handle~'') ''emailAddress''
                 else safe_get e ''handle~'')"
  using assms by (cases d) simp_all

lemma dropWhile_EMAIL_truthy:
  "case dropWhile (\<lambda>e. safe_get e ''type'' \<noteq> JStr ''EMAIL'') es of
     [] \<Rightarrow> True | e # _ \<Rightarrow> js_truthy e"
proof (cases "dropWhile (\<lambda>e. safe_get e ''type'' \<noteq> JStr ''EMAIL'') es")
  case Nil
  then show ?thesis by (simp only: list.case)
next
  case (Cons e rest)
  then have "\<not> (safe_get e ''type'' \<noteq> JStr ''EMAIL'')"
    using hd_dropWhile [of "\<lambda>e. safe_get e ''type'' \<noteq> JStr ''EMAIL''" es] by simp
  then have "js_truthy e" by (simp add: EMAIL_entry_truthy)
  with Cons show ?thesis by (simp only: list.case)
qed

lemmas found_EMAIL_value = found_value_aux [OF dropWhile_EMAIL_truthy]

lemma LinkedIn_buildAllyUser_fails_iff:
  "(LinkedIn_buildAllyUser sn p em a = Inl TypeError) =
     (nullish (safe_get (safe_get p ''firstName'') ''localized'')
      \<or> nullish (safe_get (safe_get p ''lastName'') ''localized'')
      \<or> nullish a
      \<or> (case safe_get em ''elements'' of
            JArr es \<Rightarrow> \<exists>x\<in>set (takeWhile (\<lambda>e. safe_get e ''type'' \<noteq> JStr ''EMAIL'') es). nullish x
          | _ \<Rightarrow> True))"
proof -
  have p: "nullish p \<Longrightarrow> nullish (safe_get (safe_get p ''firstName'') ''localized'')"
    by simp
  obtain x2 x3 where
    x: "\<not> nullish (safe_get (safe_get p ''firstName'') ''localized'') \<Longrightarrow>
          first_own (safe_get (safe_get p ''firstName'') ''localized'') = Inr x2"
       "\<not> nullish (safe_get (safe_get p ''lastName'') ''localized'') \<Longrightarrow>
          first_own (safe_get (safe_get p ''lastName'') ''localized'') = Inr x3"
    using first_own_total by metis
  show ?thesis
    using p x
    by (cases "safe_get em ''elements''")
      (auto simp: LinkedIn_buildAllyUser_def Let_def elements_find_EMAIL_eq find_EMAIL_eq
        first_localized_eq handle_emailAddress_eq js_get_nullish)
qed

lemma LinkedIn_buildAllyUser_value:
  assumes "LinkedIn_buildAllyUser sn p em a \<noteq> Inl TypeError"
  shows "\<exists>es a2 a3.
      safe_get em ''elements'' = JArr es
    \<and> first_own (safe_get (safe_get p ''firstName'') ''localized'') = Inr a2
    \<and> first_own (safe_get (safe_get p ''lastName'') ''localized'') = Inr a3
    \<and> LinkedIn_buildAllyUser sn p em a =
        Inr \<lparr> original = p,
              userFields =
                [safe_get p ''id'', a2, a3,
                 (case dropWhile (\<lambda>e. safe_get e ''type'' \<noteq> JStr ''EMAIL'') es of
                    [] \<Rightarrow> JUndefined
                  | e # _ \<Rightarrow> if js_truthy (safe_get e ''handle~'')
                             then safe_get (safe_get e ''handle~'') ''emailAddress''
                             else safe_get e ''handle~''),
                 JNull, JNull],
              tokenFields = [safe_get a ''accessToken'', safe_get a ''refreshToken'', JNull,
                             expires_or_null sn (lodash_get2 a ''result'' ''expires_in'')],
              tokenInfo = None \<rparr>"
proof -
  from assms have ok:
    "\<not> nullish (safe_get (safe_get p ''firstName'') ''localized'')"
    "\<not> nullish (safe_get (safe_get p ''lastName'') ''localized'')"
    "\<not> nullish a"
    and el: "(case safe_get em ''elements'' of
            JArr es \<Rightarrow> \<not> (\<exists>x\<in>set (takeWhile (\<lambda>e. safe_get e ''type'' \<noteq> JStr ''EMAIL'') es). nullish x)
          | _ \<Rightarrow> False)"
    by (auto simp: LinkedIn_buildAllyUser_fails_iff split: jsval.splits)
  from el obtain es where es: "safe_get em ''elements'' = JArr es"
    and nn: "\<not> (\<exists>x\<in>set (takeWhile (\<lambda>e. safe_get e ''type'' \<noteq> JStr ''EMAIL'') es). nullish x)"
    by (cases "safe_get em ''elements''") auto
  from ok(1) have pn: "\<not> nullish p"
    by (auto dest: not_nullish_safe_get)
  from ok obtain a2 a3 where
    a: "first_own (safe_get (safe_get p ''firstName'') ''localized'') = Inr a2"
       "first_own (safe_get (safe_get p ''lastName'') ''localized'') = Inr a3"
    using first_own_total by blast
  have "LinkedIn_buildAllyUser sn p em a =
        Inr \<lparr> original = p,
              userFields =
                [safe_get p ''id'', a2, a3,
                 (case dropWhile (\<lambda>e. safe_get e ''type'' \<noteq> JStr ''EMAIL'') es of
                    [] \<Rightarrow> JUndefined
                  | e # _ \<Rightarrow> if js_truthy (safe_get e ''handle~'')
                             then safe_get (safe_get e ''handle~'') ''emailAddress''
                             else safe_get e ''handle~''),
                 JNull, JNull],
              tokenFields = [safe_get a ''accessToken'', safe_get a ''refreshToken'', JNull,
                             expires_or_null sn (lodash_get2 a ''result'' ''expires_in'')],
              tokenInfo = None \<rparr>"
    using ok pn es nn a found_EMAIL_value [of es]
    by (simp add: LinkedIn_buildAllyUser_def Let_def elements_find_EMAIL_eq find_EMAIL_eq
        first_localized_eq handle_emailAddress_eq js_get_nullish)
  with es a show ?thesis by blast
qed

lemma Threads_token_of_body_eq:
  "Threads_token_of_body E body =
     (if nullish body then Inl TypeError
      else Inr \<lparr> tr_accessToken = safe_get body ''access_token'',
                 tr_refreshToken = JUndefined,
                 tr_tokenType = safe_get body ''token_type'',
                 tr_expiresIn = safe_get body ''expires_in'',
                 tr_expiresAt = Some (date_after (strnum E) (clock E) (safe_get body ''expires_in'')) \<rparr>)"
  by (simp add: Threads_token_of_body_def js_get_nullish)

lemma Threads_buildAllyUser_eq:
  "Threads_buildAllyUser p a =
     (if nullish p then Inl TypeError
      else Inr \<lparr> original = p,
                 userFields = [safe_get p ''id'', safe_get p ''username'', JNull,
                               safe_get p ''name'', safe_get p ''threads_profile_picture_url''],
                 tokenFields = [tr_accessToken a, JNull, JNull, js_or (tr_expiresIn a) JNull],
                 tokenInfo = Some \<lparr> ti_expiresIn = tr_expiresIn a,
                                    ti_expiresAt = tr_expiresAt a,
                                    ti_tokenType = js_or (tr_tokenType a) (JStr ''bearer'') \<rparr> \<rparr>)"
  by (simp add: Threads_buildAllyUser_def js_get_nullish)

text \<open>An extra option other than \<open>response_type\<close> is a query parameter of the URL.\<close>

lemma getUrl_query_extra:
  "k \<noteq> ''response_type'' \<Longrightarrow> map_of opts k = Some v \<Longrightarrow>
   url_query (getUrl b au sep cid uri sc opts) k = Some v"
  by (simp add: getUrl_def map_add_def)

section \<open>Properties\<close>

subsection \<open>The state check\<close>

text \<open>
  C1. In every driver the state check of \<open>getUser\<close> is \<open>if (state && originalState !== state)\<close>:
  it is guarded by the state the provider returned, not by the one the caller expects.
  So \<open>getUser\<close> fails with the invalid-state error exactly when the callback carries a
  code, the returned state is non-empty, and the returned state differs from the caller's
  original state (an absent original state differs from every returned string). When the
  returned state is absent or empty the check passes whatever the caller expects.
\<close>

theorem getUser_state_check_iff:
  "(snd (LinkedIn_getUser E this q os) = Inl InvalidState) =
     (str_truthy (q ''code'') \<and> str_truthy (q ''state'') \<and> os \<noteq> q ''state'')
   \<and> (snd (TikTok_getUser E this q os) = Inl InvalidState) =
     (str_truthy (q ''code'') \<and> str_truthy (q ''state'') \<and> os \<noteq> q ''state'')
   \<and> (snd (Threads0_getUser E this q os) = Inl InvalidState) =
     (str_truthy (q ''code'') \<and> str_truthy (q ''state'') \<and> os \<noteq> q ''state'')
   \<and> (snd (Threads_getUser E this q os) = Inl InvalidState) =
     (str_truthy (q ''code'') \<and> str_truthy (q ''state'') \<and> os \<noteq> q ''state'')"
  using LinkedIn_getUser_InvalidState_iff [of E this q os]
    TikTok_getUser_InvalidState_iff [of E this q os]
    Threads0_getUser_InvalidState_iff [of E this q os]
    Threads_getUser_InvalidState_iff [of E this q os]
  by blast

text \<open>
  At a returned state that differs from the expected one the call fails; at a callback
  without a state it does not, although the caller expects one.
\<close>

theorem getUser_state_check_iff_witness:
  "snd (TikTok_getUser sample_env (new_TikTok sample_config)
          (sample_query [(''code'', ''c1''), (''state'', ''returned'')]) (Some ''expected''))
     = Inl InvalidState
   \<and> snd (Threads_getUser sample_env (new_Threads sample_config)
          (sample_query [(''code'', ''c1'')]) (Some ''expected''))
     \<noteq> Inl InvalidState"
  using getUser_state_check_iff [of sample_env "new_TikTok sample_config"
      "sample_query [(''code'', ''c1''), (''state'', ''returned'')]" "Some ''expected''"]
    getUser_state_check_iff [of sample_env "new_Threads sample_config"
      "sample_query [(''code'', ''c1'')]" "Some ''expected''"]
  by (simp add: sample_query_def)

text \<open>
  C1, as the specification words it: with no expected state the check passes whatever
  the provider returned. LinkedIn's \<open>getUser\<close>, called with \<open>{code: 'c1', state: 'returned'}\<close>
  and no original state, throws the invalid-state error.
\<close>

theorem absent_expected_state_counterexample:
  "snd (LinkedIn_getUser sample_env (new_LinkedIn sample_config)
          (sample_query [(''code'', ''c1''), (''state'', ''returned'')]) None)
     = Inl InvalidState"
  by code_simp

subsection \<open>A callback without a code\<close>

text \<open>
  C2. For every callback without a (non-empty) \<open>code\<close>, \<open>getUser\<close> makes no outbound
  call and throws the token-exchange exception. Its message is the provider's error field
  (\<open>error_description\<close> for LinkedIn, \<open>error\<close> for TikTok and Threads) when that field
  is present and non-empty, and otherwise the text \<open>Oauth failed during redirect\<close>, as
  the drivers spell it. The outcome is a function of the callback parameters alone:
  neither the transport, nor the driver, nor the original state enters it, and
  \<open>getUser\<close> assigns to no field of the driver, so a second call yields the same error.
\<close>

theorem getUser_without_code:
  assumes "\<not> str_truthy (q ''code'')"
  shows
    "(\<exists>m. LinkedIn_getUser E this q os = ([], Inl (TokenExchangeException m JNull m))
        \<and> (if str_truthy (q ''error_description'') then q ''error_description'' = Some m
            else m = ''Oauth failed during redirect''))
     \<and> (\<exists>m. TikTok_getUser E this q os = ([], Inl (TokenExchangeException m JNull m))
        \<and> (if str_truthy (q ''error'') then q ''error'' = Some m
            else m = ''Oauth failed during redirect''))
     \<and> (\<exists>m. Threads0_getUser E this q os = ([], Inl (TokenExchangeException m JNull m))
        \<and> (if str_truthy (q ''error'') then q ''error'' = Some m
            else m = ''Oauth failed during redirect''))
     \<and> (\<exists>m. Threads_getUser E this q os = ([], Inl (TokenExchangeException m JNull m))
        \<and> (if str_truthy (q ''error'') then q ''error'' = Some m
            else m = ''Oauth failed during redirect''))"
proof -
  have d: "(if str_truthy (q ''error_description'')
            then q ''error_description'' = Some (LinkedIn_parseRedirectError q)
            else LinkedIn_parseRedirectError q = ''Oauth failed during redirect'')"
    by (cases "q ''error_description''") (simp_all add: LinkedIn_parseRedirectError_def)
  have e: "(if str_truthy (q ''error'') then q ''error'' = Some (TikTok_parseRedirectError q)
            else TikTok_parseRedirectError q = ''Oauth failed during redirect'')"
    "(if str_truthy (q ''error'') then q ''error'' = Some (Threads0_parseRedirectError q)
            else Threads0_parseRedirectError q = ''Oauth failed during redirect'')"
    "(if str_truthy (q ''error'') then q ''error'' = Some (Threads_parseRedirectError q)
            else Threads_parseRedirectError q = ''Oauth failed during redirect'')"
    by (cases "q ''error''";
        simp add: TikTok_parseRedirectError_def Threads0_parseRedirectError_def
          Threads_parseRedirectError_def)+
  show ?thesis
    using assms d e
      LinkedIn_getUser_no_code [of q E this os] TikTok_getUser_no_code [of q E this os]
      Threads0_getUser_no_code [of q E this os] Threads_getUser_no_code [of q E this os]
    by blast
qed

theorem getUser_without_code_witness:
  "\<not> str_truthy (sample_query [(''error'', ''access_denied''), (''state'', ''s1'')] ''code'')
   \<and> TikTok_getUser sample_env (new_TikTok sample_config)
         (sample_query [(''error'', ''access_denied''), (''state'', ''s1'')]) (Some ''s1'')
       = ([], Inl (TokenExchangeException ''access_denied'' JNull ''access_denied''))
   \<and> LinkedIn_getUser sample_env (new_LinkedIn sample_config)
         (sample_query [(''error'', ''access_denied''), (''state'', ''s1'')]) (Some ''s1'')
       = ([], Inl (TokenExchangeException ''Oauth failed during redirect'' JNull
                     ''Oauth failed during redirect''))"
proof -
  have h: "\<not> str_truthy (sample_query [(''error'', ''access_denied''), (''state'', ''s1'')] ''code'')"
    by (simp add: sample_query_def)
  show ?thesis
    using h
      getUser_without_code [of "sample_query [(''error'', ''access_denied''), (''state'', ''s1'')]"
        sample_env "new_TikTok sample_config" "Some ''s1''"]
      getUser_without_code [of "sample_query [(''error'', ''access_denied''), (''state'', ''s1'')]"
        sample_env "new_LinkedIn sample_config" "Some ''s1''"]
    by (auto simp: sample_query_def)
qed

text \<open>
  C2, as the specification words it: the generic message reads
  \<open>OAuth failed during redirect\<close>, and the provider's error field is the message whenever
  it is present. For a callback without any parameter the message is spelled with a small
  \<open>a\<close>, and for a callback whose \<open>error\<close> is the empty string the message is the
  generic one, not the field.
\<close>

theorem generic_message_counterexample:
  "snd (TikTok_getUser sample_env (new_TikTok sample_config) (sample_query []) None)
     = Inl (TokenExchangeException ''Oauth failed during redirect'' JNull
              ''Oauth failed during redirect'')
   \<and> ''Oauth failed during redirect'' \<noteq> ''OAuth failed during redirect''
   \<and> snd (TikTok_getUser sample_env (new_TikTok sample_config)
            (sample_query [(''error'', '''')]) None)
     = Inl (TokenExchangeException ''Oauth failed during redirect'' JNull
              ''Oauth failed during redirect'')"
  by code_simp

subsection \<open>A returned state that differs from the original one\<close>

text \<open>
  C3. For every callback with a non-empty \<open>code\<close> and a non-empty \<open>state\<close> that
  differs from the caller's original state, \<open>getUser\<close> throws the invalid-state error
  and has made no outbound call: the check comes before the code-for-token exchange. The
  missing-code check comes first: without a code the error is never the invalid-state one.
  A returned state that is the empty string counts as no state.
\<close>

theorem getUser_mismatched_state:
  "(str_truthy (q ''code'') \<and> str_truthy (q ''state'') \<and> os \<noteq> q ''state'' \<longrightarrow>
      LinkedIn_getUser E this q os = ([], Inl InvalidState)
      \<and> TikTok_getUser E this q os = ([], Inl InvalidState)
      \<and> Threads0_getUser E this q os = ([], Inl InvalidState)
      \<and> Threads_getUser E this q os = ([], Inl InvalidState))
   \<and> (\<not> str_truthy (q ''code'') \<longrightarrow>
      snd (LinkedIn_getUser E this q os) \<noteq> Inl InvalidState
      \<and> snd (TikTok_getUser E this q os) \<noteq> Inl InvalidState
      \<and> snd (Threads0_getUser E this q os) \<noteq> Inl InvalidState
      \<and> snd (Threads_getUser E this q os) \<noteq> Inl InvalidState)"
proof (intro conjI impI)
  assume "str_truthy (q ''code'') \<and> str_truthy (q ''state'') \<and> os \<noteq> q ''state''"
  then have c: "str_truthy (q ''code'')" and s: "str_truthy (q ''state'')" and d: "os \<noteq> q ''state''"
    by simp_all
  show "LinkedIn_getUser E this q os = ([], Inl InvalidState)"
    using c s d by (rule LinkedIn_getUser_bad_state)
  show "TikTok_getUser E this q os = ([], Inl InvalidState)"
    using c s d by (rule TikTok_getUser_bad_state)
  show "Threads0_getUser E this q os = ([], Inl InvalidState)"
    using c s d by (rule Threads0_getUser_bad_state)
  show "Threads_getUser E this q os = ([], Inl InvalidState)"
    using c s d by (rule Threads_getUser_bad_state)
next
  assume n: "\<not> str_truthy (q ''code'')"
  show "snd (LinkedIn_getUser E this q os) \<noteq> Inl InvalidState"
    using n by (simp add: LinkedIn_getUser_no_code)
  show "snd (TikTok_getUser E this q os) \<noteq> Inl InvalidState"
    using n by (simp add: TikTok_getUser_no_code)
  show "snd (Threads0_getUser E this q os) \<noteq> Inl InvalidState"
    using n by (simp add: Threads0_getUser_no_code)
  show "snd (Threads_getUser E this q os) \<noteq> Inl InvalidState"
    using n by (simp add: Threads_getUser_no_code)
qed

theorem getUser_mismatched_state_witness:
  "Threads_getUser sample_env (new_Threads sample_config)
      (sample_query [(''code'', ''c1''), (''state'', ''forged'')]) (Some ''s1'')
     = ([], Inl InvalidState)
   \<and> snd (Threads_getUser sample_env (new_Threads sample_config)
            (sample_query [(''state'', ''forged'')]) (Some ''s1''))
     \<noteq> Inl InvalidState"
  using getUser_mismatched_state [of "sample_query [(''code'', ''c1''), (''state'', ''forged'')]"
      "Some ''s1''" sample_env "new_Threads sample_config"]
    getUser_mismatched_state [of "sample_query [(''state'', ''forged'')]"
      "Some ''s1''" sample_env "new_Threads sample_config"]
  by (simp add: sample_query_def)

text \<open>
  C3, as the specification words it, for every callback that contains a \<open>state\<close>
  parameter: the callback \<open>{code: 'c1', state: ''}\<close> contains one, it differs from the
  original state \<open>expected\<close>, and LinkedIn's \<open>getUser\<close> goes on to the code exchange.
\<close>

theorem empty_state_counterexample:
  "snd (LinkedIn_getUser sample_env (new_LinkedIn sample_config)
          (sample_query [(''code'', ''c1''), (''state'', '''')]) (Some ''expected''))
     \<noteq> Inl InvalidState
   \<and> hd (fst (LinkedIn_getUser sample_env (new_LinkedIn sample_config)
          (sample_query [(''code'', ''c1''), (''state'', '''')]) (Some ''expected'')))
     = GetAccessTokenCall ''c1'' ''https://app.example/callback''
         (JObj [(''grant_type'', JStr ''authorization_code'')])"
  by code_simp

subsection \<open>Threads: the long-lived token\<close>

text \<open>
  C4. Every successful \<open>getUser\<close> of the Threads driver has made exactly three outbound
  calls, in this order, and each was answered: the code-for-token exchange; a request to
  the token endpoint \<open>https://graph.threads.net/access_token\<close> whose \<open>access_token\<close>
  parameter is the short-lived token (the \<open>accessToken\<close> of the first answer); a request
  for the profile whose \<open>access_token\<close> parameter is the long-lived token (the
  \<open>access_token\<close> of the second answer). The returned user is mapped from the answer to
  the third call, and the access token of its token bundle is the long-lived token; its
  expiry and token type are those of the second answer.
\<close>

theorem Threads_getUser_chain:
  assumes "Threads_getUser E this q os = (t, Inr user)"
  shows "\<exists>c short shortTok u2 body long u3 profile.
      q ''code'' = Some c
    \<and> getAccessToken E c (redirectUri this) exchange_options = Inr short
    \<and> js_get short ''accessToken'' = Inr shortTok
    \<and> u2 = ''https://graph.threads.net/access_token?grant_type=th_exchange_token&client_secret=''
             @ clientSecret this @ ''&access_token='' @ js_to_string shortTok
    \<and> (\<forall>s. shortTok = JStr s \<longrightarrow>
          u2 = ''https://graph.threads.net/access_token?grant_type=th_exchange_token&client_secret=''
                 @ clientSecret this @ ''&access_token='' @ s)
    \<and> got E u2 [(''Content-Type'', JStr ''application/json'')] = Inr body
    \<and> js_get body ''access_token'' = Inr long
    \<and> u3 = ''https://graph.threads.net/v1.0/me?fields=id,username,name,threads_profile_picture_url,threads_biography&access_token=''
             @ js_to_string long
    \<and> (\<forall>s. long = JStr s \<longrightarrow>
          u3 = ''https://graph.threads.net/v1.0/me?fields=id,username,name,threads_profile_picture_url,threads_biography&access_token=''
                 @ s)
    \<and> got E u3 [(''Content-Type'', JStr ''application/json'')] = Inr profile
    \<and> t = [GetAccessTokenCall c (redirectUri this) exchange_options,
            GotCall u2 [(''Content-Type'', JStr ''application/json'')],
            GotCall u3 [(''Content-Type'', JStr ''application/json'')]]
    \<and> user = \<lparr> original = profile,
                userFields = [safe_get profile ''id'', safe_get profile ''username'', JNull,
                              safe_get profile ''name'',
                              safe_get profile ''threads_profile_picture_url''],
                tokenFields = [long, JNull, JNull, js_or (safe_get body ''expires_in'') JNull],
                tokenInfo = Some \<lparr> ti_expiresIn = safe_get body ''expires_in'',
                                   ti_expiresAt = Some (date_after (strnum E) (clock E)
                                                          (safe_get body ''expires_in'')),
                                   ti_tokenType = js_or (safe_get body ''token_type'')
                                                    (JStr ''bearer'') \<rparr> \<rparr>"
proof -
  let ?h = "[(''Content-Type'', JStr ''application/json'')]"
  have code: "str_truthy (q ''code'')"
    using assms Threads_getUser_no_code [of q E this os] by auto
  have ok: "\<not> (str_truthy (q ''state'') \<and> os \<noteq> q ''state'')"
    using assms code Threads_getUser_bad_state [of q os E this] by auto
  from code obtain c where c: "q ''code'' = Some c" "c \<noteq> []"
    using str_truthy_Some by blast
  from assms c ok have flow:
    "io_bind (call_getAccessToken E c (redirectUri this) exchange_options) (\<lambda>short.
       io_bind (io_lift (js_get short ''accessToken'')) (\<lambda>tok.
       io_bind (Threads_exchangeForLongLivedToken E this tok) (\<lambda>long.
       io_bind (Threads_getUserProfile E long) (\<lambda>userProfile.
       io_lift (Threads_buildAllyUser userProfile long))))) = (t, Inr user)"
    by (simp add: Threads_getUser_def Let_def)
  from io_bind_Inr [OF flow] obtain t1 short t2 where
    s1: "call_getAccessToken E c (redirectUri this) exchange_options = (t1, Inr short)"
    and r1: "io_bind (io_lift (js_get short ''accessToken'')) (\<lambda>tok.
       io_bind (Threads_exchangeForLongLivedToken E this tok) (\<lambda>long.
       io_bind (Threads_getUserProfile E long) (\<lambda>userProfile.
       io_lift (Threads_buildAllyUser userProfile long)))) = (t2, Inr user)"
    and t: "t = t1 @ t2"
    by blast
  from io_bind_Inr [OF r1] obtain t3 tok t4 where
    s2: "io_lift (js_get short ''accessToken'') = (t3, Inr tok)"
    and r2: "io_bind (Threads_exchangeForLongLivedToken E this tok) (\<lambda>long.
       io_bind (Threads_getUserProfile E long) (\<lambda>userProfile.
       io_lift (Threads_buildAllyUser userProfile long))) = (t4, Inr user)"
    and t2: "t2 = t3 @ t4"
    by blast
  from io_bind_Inr [OF r2] obtain t5 ll t6 where
    s3: "Threads_exchangeForLongLivedToken E this tok = (t5, Inr ll)"
    and r3: "io_bind (Threads_getUserProfile E ll) (\<lambda>userProfile.
       io_lift (Threads_buildAllyUser userProfile ll)) = (t6, Inr user)"
    and t4: "t4 = t5 @ t6"
    by blast
  from io_bind_Inr [OF r3] obtain t7 profile t8 where
    s4: "Threads_getUserProfile E ll = (t7, Inr profile)"
    and s5: "io_lift (Threads_buildAllyUser profile ll) = (t8, Inr user)"
    and t6: "t6 = t7 @ t8"
    by blast
  define u2 where "u2 = ''https://graph.threads.net/access_token?grant_type=th_exchange_token&client_secret=''
             @ clientSecret this @ ''&access_token='' @ js_to_string tok"
  from s3 obtain tb body tl where
    g2: "call_got E (Threads_exchangeUrl this tok) ?h = (tb, Inr body)"
    and tk: "io_lift (Threads_token_of_body E body) = (tl, Inr ll)"
    and t5: "t5 = tb @ tl"
    unfolding Threads_exchangeForLongLivedToken_def by (auto dest!: io_bind_Inr)
  have e2: "Threads_exchangeUrl this tok = u2"
    by (simp add: Threads_exchangeUrl_def u2_def)
  from g2 e2 have b: "tb = [GotCall u2 ?h]" "got E u2 ?h = Inr body"
    by (auto dest: call_got_Inr)
  from tk have tl: "tl = []" and tob: "Threads_token_of_body E body = Inr ll"
    by (auto dest: io_lift_Inr)
  from tob have bn: "\<not> nullish body"
    and ll: "ll = \<lparr> tr_accessToken = safe_get body ''access_token'',
                 tr_refreshToken = JUndefined,
                 tr_tokenType = safe_get body ''token_type'',
                 tr_expiresIn = safe_get body ''expires_in'',
                 tr_expiresAt = Some (date_after (strnum E) (clock E) (safe_get body ''expires_in'')) \<rparr>"
    by (auto simp: Threads_token_of_body_eq split: if_splits)
  define long where "long = safe_get body ''access_token''"
  from bn have lg: "js_get body ''access_token'' = Inr long"
    by (simp add: js_get_nullish long_def)
  define u3 where "u3 = ''https://graph.threads.net/v1.0/me?fields=id,username,name,threads_profile_picture_url,threads_biography&access_token=''
             @ js_to_string long"
  have e3: "Threads_profileUrl (tr_accessToken ll) = u3"
    by (simp add: Threads_profileUrl_def u3_def ll long_def)
  from s4 e3 have p: "t7 = [GotCall u3 ?h]" "got E u3 ?h = Inr profile"
    by (auto simp: Threads_getUserProfile_def dest: call_got_Inr)
  from s5 have t8: "t8 = []" and bu: "Threads_buildAllyUser profile ll = Inr user"
    by (auto dest: io_lift_Inr)
  from bu have u: "user = \<lparr> original = profile,
                userFields = [safe_get profile ''id'', safe_get profile ''username'', JNull,
                              safe_get profile ''name'',
                              safe_get profile ''threads_profile_picture_url''],
                tokenFields = [long, JNull, JNull, js_or (safe_get body ''expires_in'') JNull],
                tokenInfo = Some \<lparr> ti_expiresIn = safe_get body ''expires_in'',
                                   ti_expiresAt = Some (date_after (strnum E) (clock E)
                                                          (safe_get body ''expires_in'')),
                                   ti_tokenType = js_or (safe_get body ''token_type'')
                                                    (JStr ''bearer'') \<rparr> \<rparr>"
    by (auto simp: Threads_buildAllyUser_eq ll long_def split: if_splits)
  have tr: "t = [GetAccessTokenCall c (redirectUri this) exchange_options,
            GotCall u2 ?h, GotCall u3 ?h]"
    using t t2 t4 t5 t6 t8 tl b(1) p(1) call_getAccessToken_Inr [OF s1] io_lift_Inr [OF s2]
    by simp
  have s2': "js_get short ''accessToken'' = Inr tok"
    using io_lift_Inr [OF s2] by simp
  have a: "getAccessToken E c (redirectUri this) exchange_options = Inr short"
    using call_getAccessToken_Inr [OF s1] by simp
  have u2s: "\<forall>s. tok = JStr s \<longrightarrow>
          u2 = ''https://graph.threads.net/access_token?grant_type=th_exchange_token&client_secret=''
                 @ clientSecret this @ ''&access_token='' @ s"
    by (simp add: u2_def)
  have u3s: "\<forall>s. long = JStr s \<longrightarrow>
          u3 = ''https://graph.threads.net/v1.0/me?fields=id,username,name,threads_profile_picture_url,threads_biography&access_token=''
                 @ s"
    by (simp add: u3_def)
  show ?thesis
    apply (rule exI [of _ c], rule exI [of _ short], rule exI [of _ tok], rule exI [of _ u2],
        rule exI [of _ body], rule exI [of _ long], rule exI [of _ u3], rule exI [of _ profile])
    using c(1) a s2' u2s b(2) lg u3s p(2) tr u
    by (simp add: u2_def u3_def)
qed

theorem Threads_getUser_chain_witness:
  "\<exists>t user.
     Threads_getUser sample_env (new_Threads sample_config)
       (sample_query [(''code'', ''c1''), (''state'', ''s1'')]) (Some ''s1'') = (t, Inr user)
     \<and> t = [GetAccessTokenCall ''c1'' ''https://app.example/callback'' exchange_options,
            GotCall ''https://graph.threads.net/access_token?grant_type=th_exchange_token&client_secret=secret-1&access_token=S''
              [(''Content-Type'', JStr ''application/json'')],
            GotCall ''https://graph.threads.net/v1.0/me?fields=id,username,name,threads_profile_picture_url,threads_biography&access_token=L''
              [(''Content-Type'', JStr ''application/json'')]]
     \<and> original user = sample_profile
     \<and> tokenFields user = [JStr ''L'', JNull, JNull, JNum 5184000]"
proof -
  let ?h = "[(''Content-Type'', JStr ''application/json'')]"
  let ?q = "sample_query [(''code'', ''c1''), (''state'', ''s1'')]"
  let ?d = "new_Threads sample_config"
  have "\<not> isl (snd (Threads_getUser sample_env ?d ?q (Some ''s1'')))"
    by code_simp
  then obtain t user where run: "Threads_getUser sample_env ?d ?q (Some ''s1'') = (t, Inr user)"
    by (metis prod.collapse sum.collapse(2))
  from Threads_getUser_chain [OF run] obtain c short shortTok u2 body long u3 profile where
    c: "?q ''code'' = Some c"
    and a: "getAccessToken sample_env c (redirectUri ?d) exchange_options = Inr short"
    and s: "js_get short ''accessToken'' = Inr shortTok"
    and u2: "\<forall>s. shortTok = JStr s \<longrightarrow>
          u2 = ''https://graph.threads.net/access_token?grant_type=th_exchange_token&client_secret=''
                 @ clientSecret ?d @ ''&access_token='' @ s"
    and g2: "got sample_env u2 ?h = Inr body"
    and l: "js_get body ''access_token'' = Inr long"
    and u3: "\<forall>s. long = JStr s \<longrightarrow>
          u3 = ''https://graph.threads.net/v1.0/me?fields=id,username,name,threads_profile_picture_url,threads_biography&access_token=''
                 @ s"
    and g3: "got sample_env u3 ?h = Inr profile"
    and t: "t = [GetAccessTokenCall c (redirectUri ?d) exchange_options,
            GotCall u2 ?h, GotCall u3 ?h]"
    and u: "user = \<lparr> original = profile,
                userFields = [safe_get profile ''id'', safe_get profile ''username'', JNull,
                              safe_get profile ''name'',
                              safe_get profile ''threads_profile_picture_url''],
                tokenFields = [long, JNull, JNull, js_or (safe_get body ''expires_in'') JNull],
                tokenInfo = Some \<lparr> ti_expiresIn = safe_get body ''expires_in'',
                                   ti_expiresAt = Some (date_after (strnum sample_env) (clock sample_env)
                                                          (safe_get body ''expires_in'')),
                                   ti_tokenType = js_or (safe_get body ''token_type'')
                                                    (JStr ''bearer'') \<rparr> \<rparr>"
    by blast
  from c have c1: "c = ''c1''" by (simp add: sample_query_def)
  have r: "redirectUri ?d = ''https://app.example/callback''" "clientSecret ?d = ''secret-1''"
    by (simp_all add: new_Threads_def sample_config_def)
  from a have "short = sample_token" by (simp add: sample_env_def)
  with s have s1: "shortTok = JStr ''S''" by (simp add: sample_token_def field_def)
  with u2 r have u2': "u2 = ''https://graph.threads.net/access_token?grant_type=th_exchange_token&client_secret=secret-1&access_token=S''"
    by simp
  have "got sample_env ''https://graph.threads.net/access_token?grant_type=th_exchange_token&client_secret=secret-1&access_token=S'' ?h
          = Inr sample_long_lived"
    by code_simp
  with g2 u2' have b: "body = sample_long_lived" by simp
  with l have l1: "long = JStr ''L''" by (simp add: sample_long_lived_def field_def)
  with u3 have u3': "u3 = ''https://graph.threads.net/v1.0/me?fields=id,username,name,threads_profile_picture_url,threads_biography&access_token=L''"
    by simp
  have "got sample_env ''https://graph.threads.net/v1.0/me?fields=id,username,name,threads_profile_picture_url,threads_biography&access_token=L'' ?h
          = Inr sample_profile"
    by code_simp
  with g3 u3' have p: "profile = sample_profile" by simp
  have e: "js_or (safe_get sample_long_lived ''expires_in'') JNull = JNum 5184000"
    by (simp add: js_or_def safe_get_def sample_long_lived_def field_def)
  from run t u c1 r u2' u3' l1 b p e show ?thesis by simp
qed

subsection \<open>Threads: when to refresh\<close>

text \<open>
  C5. For every expiry timestamp and every current time, the refresh predicate is true
  exactly when the expiry lies strictly after now and at most 24 hours (86400000 ms)
  after now, and now plus 24 hours is still the time value of a valid date, that is, at
  most 8.64e15 ms from the epoch. So it is false for a token that has expired already and
  for a token that expires more than a day from now. An Invalid Date is never due for
  refresh.
\<close>

theorem shouldRefreshToken_window:
  "shouldRefreshToken now (Date expiresAt) =
     (now < expiresAt \<and> expiresAt \<le> now + 86400000 \<and> \<bar>now + 86400000\<bar> \<le> 8640000000000000)
   \<and> shouldRefreshToken now InvalidDate = False"
  by (auto simp: shouldRefreshToken_def new_Date_def Let_def)

theorem shouldRefreshToken_window_witness:
  "shouldRefreshToken 1000 (Date 1001) \<and> shouldRefreshToken 1000 (Date 86401000)
   \<and> \<not> shouldRefreshToken 1000 (Date 1000) \<and> \<not> shouldRefreshToken 1000 (Date 86401001)
   \<and> \<not> shouldRefreshToken 1000 InvalidDate"
  using shouldRefreshToken_window [of 1000 1001] shouldRefreshToken_window [of 1000 86401000]
    shouldRefreshToken_window [of 1000 1000] shouldRefreshToken_window [of 1000 86401001]
  by simp

text \<open>
  C5, as the specification words it, for every current time: in the last 24 hours of the
  range of a \<open>Date\<close> the date one day from now is an Invalid Date, every comparison
  with it is false, and a token that expires within the day is not reported.
\<close>

theorem shouldRefreshToken_range_counterexample:
  "\<not> shouldRefreshToken 8639999999999000 (Date 8639999999999500)
   \<and> (8639999999999000 :: int) < 8639999999999500
   \<and> (8639999999999500 :: int) \<le> 8639999999999000 + 86400000"
  by (simp add: shouldRefreshToken_def new_Date_def Let_def)

subsection \<open>The mapping to a user\<close>

text \<open>
  C6. \<open>_buildAllyUser\<close> is a pure function of the profile, the e-mail resource and the
  token result. It knows no profile-mapping error: its only failure is the
  \<open>TypeError\<close> of reading a property of \<open>undefined\<close> or \<open>null\<close>. TikTok's mapping
  fails exactly when \<open>result.data\<close> of the token result or \<open>data\<close> of the profile is
  \<open>undefined\<close> or \<open>null\<close>. LinkedIn's mapping fails exactly when
  \<open>firstName.localized\<close> or \<open>lastName.localized\<close> of the profile is \<open>undefined\<close> or
  \<open>null\<close>, or the token result is, or \<open>elements\<close> of the e-mail resource is not an
  array, or an element that is \<open>undefined\<close> or \<open>null\<close> comes before the first element
  of type \<open>EMAIL\<close>. In every other case the mapping succeeds, whichever leaf fields are
  missing, and a missing leaf is passed on as \<open>undefined\<close>: this holds for \<open>id\<close>,
  \<open>open_id\<close> and \<open>accessToken\<close> as for every other field.
\<close>

theorem buildAllyUser_failures:
  "TikTok_buildAllyUser sn p a =
     (if nullish (safe_get (safe_get a ''result'') ''data'') \<or> nullish (safe_get p ''data'')
      then Inl TypeError
      else Inr \<lparr> original = p,
                 userFields = [safe_get (safe_get (safe_get a ''result'') ''data'') ''open_id'',
                               safe_get (safe_get p ''data'') ''name'', JNull,
                               safe_get (safe_get p ''data'') ''display_name'',
                               safe_get (safe_get p ''data'') ''profile_picture''],
                 tokenFields = [safe_get a ''accessToken'', safe_get a ''refreshToken'', JNull,
                                expires_or_null sn (lodash_get2 a ''result'' ''expires_in'')],
                 tokenInfo = None \<rparr>)
   \<and> (LinkedIn_buildAllyUser sn p em a = Inl TypeError) =
       (nullish (safe_get (safe_get p ''firstName'') ''localized'')
        \<or> nullish (safe_get (safe_get p ''lastName'') ''localized'')
        \<or> nullish a
        \<or> (case safe_get em ''elements'' of
              JArr es \<Rightarrow>
                \<exists>x\<in>set (takeWhile (\<lambda>e. safe_get e ''type'' \<noteq> JStr ''EMAIL'') es). nullish x
            | _ \<Rightarrow> True))
   \<and> (LinkedIn_buildAllyUser sn p em a \<noteq> Inl TypeError \<longrightarrow>
       (\<exists>es a2 a3.
          safe_get em ''elements'' = JArr es
        \<and> first_own (safe_get (safe_get p ''firstName'') ''localized'') = Inr a2
        \<and> first_own (safe_get (safe_get p ''lastName'') ''localized'') = Inr a3
        \<and> LinkedIn_buildAllyUser sn p em a =
            Inr \<lparr> original = p,
                  userFields =
                    [safe_get p ''id'', a2, a3,
                     (case dropWhile (\<lambda>e. safe_get e ''type'' \<noteq> JStr ''EMAIL'') es of
                        [] \<Rightarrow> JUndefined
                      | e # _ \<Rightarrow> if js_truthy (safe_get e ''handle~'')
                                 then safe_get (safe_get e ''handle~'') ''emailAddress''
                                 else safe_get e ''handle~''),
                     JNull, JNull],
                  tokenFields = [safe_get a ''accessToken'', safe_get a ''refreshToken'', JNull,
                                 expires_or_null sn (lodash_get2 a ''result'' ''expires_in'')],
                  tokenInfo = None \<rparr>))"
  using TikTok_buildAllyUser_eq [of sn p a] LinkedIn_buildAllyUser_fails_iff [of sn p em a]
    LinkedIn_buildAllyUser_value [of sn p em a]
  by blast

theorem buildAllyUser_failures_witness:
  "TikTok_buildAllyUser (\<lambda>s. JNaN) (JObj [(''data'', JObj [])])
       (JObj [(''result'', JObj [(''data'', JObj [])])])
     = Inr \<lparr> original = JObj [(''data'', JObj [])],
             userFields = [JUndefined, JUndefined, JNull, JUndefined, JUndefined],
             tokenFields = [JUndefined, JUndefined, JNull, JNull],
             tokenInfo = None \<rparr>
   \<and> LinkedIn_buildAllyUser (\<lambda>s. JNaN)
        (JObj [(''firstName'', JObj [(''localized'', JObj [])]),
               (''lastName'', JObj [(''localized'', JObj [(''en_US'', JStr ''Liddell'')])])])
        (JObj [(''elements'', JArr [])]) (JObj [])
     = Inr \<lparr> original = JObj [(''firstName'', JObj [(''localized'', JObj [])]),
                              (''lastName'', JObj [(''localized'', JObj [(''en_US'', JStr ''Liddell'')])])],
             userFields = [JUndefined, JUndefined, JStr ''Liddell'', JUndefined, JNull, JNull],
             tokenFields = [JUndefined, JUndefined, JNull, JNull],
             tokenInfo = None \<rparr>
   \<and> LinkedIn_buildAllyUser (\<lambda>s. JNaN) sample_profile (JObj [(''elements'', JArr [JNull])])
        sample_token
     = Inl TypeError"
proof -
  let ?p = "JObj [(''firstName'', JObj [(''localized'', JObj [])]),
               (''lastName'', JObj [(''localized'', JObj [(''en_US'', JStr ''Liddell'')])])]"
  note t = buildAllyUser_failures [of "\<lambda>s. JNaN" "JObj [(''data'', JObj [])]"
      "JObj [(''result'', JObj [(''data'', JObj [])])]" JNull]
  note l = buildAllyUser_failures [of "\<lambda>s. JNaN" ?p "JObj []" "JObj [(''elements'', JArr [])]"]
  note f = buildAllyUser_failures [of "\<lambda>s. JNaN" sample_profile sample_token
      "JObj [(''elements'', JArr [JNull])]"]
  have 1: "TikTok_buildAllyUser (\<lambda>s. JNaN) (JObj [(''data'', JObj [])])
       (JObj [(''result'', JObj [(''data'', JObj [])])])
     = Inr \<lparr> original = JObj [(''data'', JObj [])],
             userFields = [JUndefined, JUndefined, JNull, JUndefined, JUndefined],
             tokenFields = [JUndefined, JUndefined, JNull, JNull],
             tokenInfo = None \<rparr>"
    using t by (simp add: safe_get_def field_def nullish_def lodash_get2_def expires_or_null_def)
  have ok: "LinkedIn_buildAllyUser (\<lambda>s. JNaN) ?p (JObj [(''elements'', JArr [])]) (JObj [])
              \<noteq> Inl TypeError"
    using l by (simp add: safe_get_def field_def nullish_def)
  have 2: "LinkedIn_buildAllyUser (\<lambda>s. JNaN) ?p (JObj [(''elements'', JArr [])]) (JObj [])
     = Inr \<lparr> original = ?p,
             userFields = [JUndefined, JUndefined, JStr ''Liddell'', JUndefined, JNull, JNull],
             tokenFields = [JUndefined, JUndefined, JNull, JNull],
             tokenInfo = None \<rparr>"
    using l ok by (auto simp: safe_get_def field_def lodash_get2_def expires_or_null_def)
  have 3: "LinkedIn_buildAllyUser (\<lambda>s. JNaN) sample_profile (JObj [(''elements'', JArr [JNull])])
        sample_token = Inl TypeError"
    using f by (simp add: safe_get_def field_def nullish_def sample_profile_def sample_token_def)
  from 1 2 3 show ?thesis by simp
qed

text \<open>
  C6, as the specification words it: a missing optional field never makes the mapping
  fail, and a missing \<open>id\<close> or \<open>accessToken\<close> does. LinkedIn's mapping fails on a
  profile that has its \<open>id\<close> but no \<open>firstName\<close>, given a token result with its
  \<open>accessToken\<close>; TikTok's mapping returns a user without identity and without access
  token when the token result has neither \<open>open_id\<close> nor \<open>accessToken\<close>.
\<close>

theorem buildAllyUser_counterexample:
  "LinkedIn_buildAllyUser (\<lambda>s. JNaN) (JObj [(''id'', JStr ''42'')]) sample_email
       (JObj [(''accessToken'', JStr ''T''), (''refreshToken'', JNull)])
     = Inl TypeError
   \<and> TikTok_buildAllyUser (\<lambda>s. JNaN) (JObj [(''data'', JObj [(''name'', JStr ''alice'')])])
       (JObj [(''result'', JObj [(''data'', JObj [])])])
     = Inr \<lparr> original = JObj [(''data'', JObj [(''name'', JStr ''alice'')])],
             userFields = [JUndefined, JStr ''alice'', JNull, JUndefined, JUndefined],
             tokenFields = [JUndefined, JUndefined, JNull, JNull],
             tokenInfo = None \<rparr>"
  by code_simp

subsection \<open>A user from a token the caller holds\<close>

text \<open>
  C7. \<open>getUserByToken\<close> makes no code exchange and no state check in any driver, but in
  three of the four files it cannot produce the user that \<open>getUser\<close> would map from
  the same profile. LinkedIn passes \<open>null\<close> for the e-mail resource to a mapping that
  reads \<open>email.elements\<close>: after the profile fetch it always throws. TikTok passes the
  bare token string where \<open>_getUserProfile\<close> reads \<open>accessTokenResponse.result.data.open_id\<close>:
  it throws before any call. The Threads file without the long-lived exchange passes the
  bare token string where \<open>_getUserProfile\<close> reads \<open>accessTokenResponse.accessToken\<close>:
  the profile is requested with \<open>access_token=undefined\<close>.
\<close>

theorem getUserByToken_never_succeeds:
  "LinkedIn_getUserByToken E this tok =
     ([GotCall (LinkedIn_profileUrl this) (LinkedIn_headers (JStr tok))],
      case got E (LinkedIn_profileUrl this) (LinkedIn_headers (JStr tok)) of
        Inl m \<Rightarrow> Inl (GotRejected m)
      | Inr body \<Rightarrow> Inl TypeError)
   \<and> TikTok_getUserByToken E this tok = ([], Inl TypeError)
   \<and> fst (Threads0_getUserByToken E this tok) =
       [GotCall (Threads_profileUrl JUndefined) [(''Content-Type'', JStr ''application/json'')]]"
proof (intro conjI)
  show "LinkedIn_getUserByToken E this tok =
     ([GotCall (LinkedIn_profileUrl this) (LinkedIn_headers (JStr tok))],
      case got E (LinkedIn_profileUrl this) (LinkedIn_headers (JStr tok)) of
        Inl m \<Rightarrow> Inl (GotRejected m)
      | Inr body \<Rightarrow> Inl TypeError)"
    by (simp add: LinkedIn_getUserByToken_def LinkedIn_getUserProfile_def call_got_def
        io_bind_def io_lift_def LinkedIn_buildAllyUser_null_email split: sum.splits)
  show "TikTok_getUserByToken E this tok = ([], Inl TypeError)"
    by (simp add: TikTok_getUserByToken_def TikTok_getUserProfile_def result_data_open_id_def
        io_bind_def io_lift_def)
  show "fst (Threads0_getUserByToken E this tok) =
       [GotCall (Threads_profileUrl JUndefined) [(''Content-Type'', JStr ''application/json'')]]"
    by (simp add: Threads0_getUserByToken_def Threads0_getUserProfile_def fst_io_bind
        split: sum.splits)
qed

text \<open>
  On the stubbed transport, which answers LinkedIn's profile URL with a complete profile,
  \<open>getUserByToken('T')\<close> still ends in the \<open>TypeError\<close>.
\<close>

lemma LinkedIn_getUserByToken_sample_run:
  "LinkedIn_getUserByToken sample_env (new_LinkedIn sample_config) ''T''
     = ([GotCall (LinkedIn_profileUrl (new_LinkedIn sample_config)) (LinkedIn_headers (JStr ''T''))],
        Inl TypeError)
   \<and> got sample_env (LinkedIn_profileUrl (new_LinkedIn sample_config)) (LinkedIn_headers (JStr ''T''))
     = Inr sample_profile"
  by code_simp

text \<open>
  The Threads driver with the long-lived token wraps the token, \<open>_getUserProfile({ accessToken })\<close>,
  and maps the profile as \<open>getUser\<close> does.
\<close>

lemma Threads_getUserByToken_maps:
  assumes "got E (Threads_profileUrl (JStr tok)) [(''Content-Type'', JStr ''application/json'')] = Inr (JObj pf)"
  shows "Threads_getUserByToken E this tok =
     ([GotCall (Threads_profileUrl (JStr tok)) [(''Content-Type'', JStr ''application/json'')]],
      Inr \<lparr> original = JObj pf,
            userFields = [field pf ''id'', field pf ''username'', JNull, field pf ''name'',
                          field pf ''threads_profile_picture_url''],
            tokenFields = [JStr tok, JNull, JNull, JNull],
            tokenInfo = Some \<lparr> ti_expiresIn = JUndefined, ti_expiresAt = None,
                               ti_tokenType = JStr ''bearer'' \<rparr> \<rparr>)"
  using assms
  by (simp add: Threads_getUserByToken_def Threads_getUserProfile_def call_got_def io_bind_def
      io_lift_def Threads_buildAllyUser_def js_or_def)

text \<open>
  There the identity fields depend on the profile alone: a user from \<open>getUser\<close> and a
  user from \<open>getUserByToken\<close> that were mapped from the same profile have the same ones.
\<close>

lemma Threads_buildAllyUser_same_identity:
  assumes "Threads_buildAllyUser p a = Inr u" "Threads_buildAllyUser p a' = Inr u'"
  shows "userFields u = userFields u' \<and> original u = original u'"
  using assms unfolding Threads_buildAllyUser_def
  by (cases p) (auto simp: bind_exn_def split: sum.splits)

lemma Threads_getUser_maps:
  assumes "Threads_getUser E this q os = (t, Inr u)"
  shows "\<exists>long. Threads_buildAllyUser (original u) long = Inr u"
proof -
  have code: "str_truthy (q ''code'')"
    using assms Threads_getUser_no_code [of q E this os] by auto
  have ok: "\<not> (str_truthy (q ''state'') \<and> os \<noteq> q ''state'')"
    using assms code Threads_getUser_bad_state [of q os E this] by auto
  from assms code ok have
    "io_bind (call_getAccessToken E (case q ''code'' of Some c \<Rightarrow> c | None \<Rightarrow> []) (redirectUri this) exchange_options) (\<lambda>short.
       io_bind (io_lift (js_get short ''accessToken'')) (\<lambda>tok.
       io_bind (Threads_exchangeForLongLivedToken E this tok) (\<lambda>long.
       io_bind (Threads_getUserProfile E long) (\<lambda>userProfile.
       io_lift (Threads_buildAllyUser userProfile long))))) = (t, Inr u)"
    by (simp add: Threads_getUser_def Let_def)
  then obtain p long where b: "Threads_buildAllyUser p long = Inr u"
    by (auto dest!: io_bind_Inr io_lift_Inr)
  then have "original u = p"
    unfolding Threads_buildAllyUser_def by (auto simp: bind_exn_def split: sum.splits)
  with b show ?thesis by blast
qed

lemma Threads_getUserByToken_builds:
  assumes "Threads_getUserByToken E this tok = (t, Inr u)"
  shows "\<exists>long. Threads_buildAllyUser (original u) long = Inr u"
proof -
  from assms obtain p long where b: "Threads_buildAllyUser p long = Inr u"
    unfolding Threads_getUserByToken_def by (auto dest!: io_bind_Inr io_lift_Inr)
  then have "original u = p"
    unfolding Threads_buildAllyUser_def by (auto simp: bind_exn_def split: sum.splits)
  with b show ?thesis by blast
qed

lemma Threads_getUserByToken_same_identity:
  assumes "Threads_getUser E this q os = (t, Inr u)"
    and "Threads_getUserByToken E' this' tok = (t', Inr u')"
    and "original u = original u'"
  shows "userFields u = userFields u'"
  using Threads_getUser_maps [OF assms(1)] Threads_getUserByToken_builds [OF assms(2)] assms(3)
    Threads_buildAllyUser_same_identity
  by metis

subsection \<open>The options object of the driver\<close>

text \<open>
  C8. The redirect options resolved at construction do not stay as they were:
  \<open>Object.assign(this._redirectUriOptions, { state })\<close> writes the state of one call into
  the driver. On a LinkedIn driver built from a configuration without options, a call
  without a state hands \<open>getUrl\<close> the options \<open>response_type=code\<close>; after one call
  with the state \<open>abc\<close>, the same call without a state hands it
  \<open>response_type=code, state=abc\<close>, and the options of the driver differ from those
  it was constructed with.
\<close>

theorem getRedirectUrl_keeps_state:
  "fst (LinkedIn_getRedirectUrl sample_getUrl (new_LinkedIn sample_config) None)
     = (''https://app.example/callback'', [''r_liteprofile'', ''r_emailaddress''],
        [(''response_type'', ''code'')])
   \<and> fst (LinkedIn_getRedirectUrl sample_getUrl
            (snd (LinkedIn_getRedirectUrl sample_getUrl (new_LinkedIn sample_config) (Some ''abc'')))
            None)
     = (''https://app.example/callback'', [''r_liteprofile'', ''r_emailaddress''],
        [(''response_type'', ''code''), (''state'', ''abc'')])
   \<and> redirectUriOptions
        (snd (LinkedIn_getRedirectUrl sample_getUrl (new_LinkedIn sample_config) (Some ''abc'')))
     \<noteq> redirectUriOptions (new_LinkedIn sample_config)"
  by code_simp

subsection \<open>The state in the redirect URL\<close>

text \<open>
  C9. For every non-empty state given to \<open>getRedirectUrl\<close>, the redirect URL has a
  \<open>state\<close> query parameter equal to the given value, unmodified, whatever the driver's
  options held before. Every state value, returned unchanged in the callback and supplied
  as the original state, passes the state check of \<open>getUser\<close>. An empty string given
  as state counts as no state.
\<close>

theorem getRedirectUrl_state_roundtrip:
  "(s \<noteq> [] \<longrightarrow>
      url_query (fst (LinkedIn_getRedirectUrl (LinkedIn_getUrl this) this (Some s))) ''state'' = Some s
      \<and> url_query (fst (TikTok_getRedirectUrl (TikTok_getUrl this) this (Some s))) ''state'' = Some s
      \<and> url_query (fst (Threads0_getRedirectUrl (Threads_getUrl this) this (Some s))) ''state'' = Some s
      \<and> url_query (fst (Threads_getRedirectUrl (Threads_getUrl this) this (Some s))) ''state'' = Some s)
   \<and> (q ''state'' = Some s \<longrightarrow>
      snd (LinkedIn_getUser E this q (Some s)) \<noteq> Inl InvalidState
      \<and> snd (TikTok_getUser E this q (Some s)) \<noteq> Inl InvalidState
      \<and> snd (Threads0_getUser E this q (Some s)) \<noteq> Inl InvalidState
      \<and> snd (Threads_getUser E this q (Some s)) \<noteq> Inl InvalidState)"
proof (intro conjI impI)
  assume s: "s \<noteq> []"
  show "url_query (fst (LinkedIn_getRedirectUrl (LinkedIn_getUrl this) this (Some s))) ''state'' = Some s"
    using s state_option(1) [of s "redirectUriOptions this"]
    by (simp add: getRedirectUrl_with_state(1) LinkedIn_getUrl_def getUrl_query_extra)
  show "url_query (fst (TikTok_getRedirectUrl (TikTok_getUrl this) this (Some s))) ''state'' = Some s"
    using s state_option(2) [of "clientId this" s "redirectUriOptions this"]
    by (simp add: getRedirectUrl_with_state(2) TikTok_getUrl_def getUrl_query_extra)
  show "url_query (fst (Threads0_getRedirectUrl (Threads_getUrl this) this (Some s))) ''state'' = Some s"
    using s state_option(2) [of "clientId this" s "redirectUriOptions this"]
    by (simp add: getRedirectUrl_with_state(3) Threads_getUrl_def getUrl_query_extra)
  show "url_query (fst (Threads_getRedirectUrl (Threads_getUrl this) this (Some s))) ''state'' = Some s"
    using s state_option(2) [of "clientId this" s "redirectUriOptions this"]
    by (simp add: getRedirectUrl_with_state(4) Threads_getUrl_def getUrl_query_extra)
next
  assume q: "q ''state'' = Some s"
  show "snd (LinkedIn_getUser E this q (Some s)) \<noteq> Inl InvalidState"
    using q by (simp add: LinkedIn_getUser_InvalidState_iff)
  show "snd (TikTok_getUser E this q (Some s)) \<noteq> Inl InvalidState"
    using q by (simp add: TikTok_getUser_InvalidState_iff)
  show "snd (Threads0_getUser E this q (Some s)) \<noteq> Inl InvalidState"
    using q by (simp add: Threads0_getUser_InvalidState_iff)
  show "snd (Threads_getUser E this q (Some s)) \<noteq> Inl InvalidState"
    using q by (simp add: Threads_getUser_InvalidState_iff)
qed

theorem getRedirectUrl_state_roundtrip_witness:
  "url_query (fst (TikTok_getRedirectUrl (TikTok_getUrl (new_TikTok sample_config))
                     (new_TikTok sample_config) (Some ''a b&c=d''))) ''state''
     = Some ''a b&c=d''
   \<and> snd (TikTok_getUser sample_env (new_TikTok sample_config)
            (sample_query [(''code'', ''c1''), (''state'', ''a b&c=d'')]) (Some ''a b&c=d''))
     \<noteq> Inl InvalidState"
  using getRedirectUrl_state_roundtrip [of "''a b&c=d''" "new_TikTok sample_config"
      "sample_query [(''code'', ''c1''), (''state'', ''a b&c=d'')]" sample_env]
  by (simp add: sample_query_def)

text \<open>
  C9, as the specification words it, for every state value: with the empty string as state,
  the redirect URL of a LinkedIn driver without configured options has no \<open>state\<close>
  parameter at all.
\<close>

theorem empty_state_dropped_counterexample:
  "url_query (fst (LinkedIn_getRedirectUrl (LinkedIn_getUrl (new_LinkedIn sample_config))
                     (new_LinkedIn sample_config) (Some ''''))) ''state''
     = None"
  by code_simp

subsection \<open>The parameter \<open>client_key\<close>\<close>

text \<open>
  C10. TikTok and Threads write \<open>client_key\<close> next to \<open>state\<close>, and only in a call
  that is given a state; but both are written into the options object of the driver. On
  a TikTok driver built from a configuration without options, a call without a state
  hands \<open>getUrl\<close> the options \<open>response_type=code\<close>; after one call with the state
  \<open>abc\<close>, a call without a state hands it \<open>state=abc\<close> and
  \<open>client_key=client-1\<close> as well.
\<close>

theorem getRedirectUrl_client_key_stays:
  "fst (TikTok_getRedirectUrl sample_getUrl (new_TikTok sample_config) None)
     = (''https://app.example/callback'', [''user.info.basic'', ''user.info.username''],
        [(''response_type'', ''code'')])
   \<and> fst (TikTok_getRedirectUrl sample_getUrl
            (snd (TikTok_getRedirectUrl sample_getUrl (new_TikTok sample_config) (Some ''abc'')))
            None)
     = (''https://app.example/callback'', [''user.info.basic'', ''user.info.username''],
        [(''response_type'', ''code''), (''state'', ''abc''), (''client_key'', ''client-1'')])"
  by code_simp

end
